theory Spec2Isabelle
  imports Main "HOL-Library.AList"
begin

section \<open>The experiment query layer of cell\_census (experiment\_query/query.py)\<close>

text \<open>
  A shallow embedding of \<^verbatim>\<open>ExperimentQuery\<close>, \<^verbatim>\<open>experiment_query\<close>,
  \<^verbatim>\<open>AsyncExperimentQuery\<close>, \<^verbatim>\<open>wrap_generator\<close>, \<^verbatim>\<open>async_iter\<close> and
  \<^verbatim>\<open>AxisIndexer\<close>. A Python method that mutates \<^verbatim>\<open>self\<close> becomes a function from
  the query's state to a result and the new state; a raised exception is the \<open>Inl\<close> of a
  sum, and the state it leaves behind is returned with it, since Python does not roll
  back what a method has assigned before it raises. Left out: \<^verbatim>\<open>read_as_anndata\<close>, which
  calls \<^verbatim>\<open>read\<close> and hands the result to \<^verbatim>\<open>make_anndata\<close> (not among the sources), and
  the async wrappers of the axis and identifier reads, each of which awaits the method it
  wraps.
\<close>

subsection \<open>Exceptions\<close>

text \<open>
  The exception classes the code raises itself (\<^verbatim>\<open>ValueError\<close>,
  \<^verbatim>\<open>NotImplementedError\<close>, a failed \<^verbatim>\<open>assert\<close>), those its libraries raise on the
  paths modelled here, and \<open>StorageError\<close> for whatever the storage engine raises.
\<close>

datatype error =
    ValueError string
  | NotImplementedError string
  | AssertionError
  | KeyError string
  | RuntimeError string
  | AttributeError string
  | TypeError string
  | InvalidIndexError
  | ArrowInvalid string
  | StorageError string

fun exc_class :: "error \<Rightarrow> string" where
  "exc_class (ValueError m) = ''ValueError''"
| "exc_class (NotImplementedError m) = ''NotImplementedError''"
| "exc_class AssertionError = ''AssertionError''"
| "exc_class (KeyError m) = ''KeyError''"
| "exc_class (RuntimeError m) = ''RuntimeError''"
| "exc_class (AttributeError m) = ''AttributeError''"
| "exc_class (TypeError m) = ''TypeError''"
| "exc_class InvalidIndexError = ''InvalidIndexError''"
| "exc_class (ArrowInvalid m) = ''ArrowInvalid''"
| "exc_class (StorageError m) = ''StorageError''"

subsection \<open>Arrow tables\<close>

text \<open>
  A table is its columns in order, each a name and its cells; a cell is an int64
  (identifiers, positions) or any other datum, which the query layer only carries.
  Unbounded \<open>int\<close> stands for int64 and intp: the layer does no arithmetic on them.
\<close>

datatype 'd cell = Int64 int | Data 'd

type_synonym 'd column = "'d cell list"

type_synonym 'd table = "(string \<times> 'd column) list"

text \<open>
  pyarrow (library code, outside the repository), as documented:
  \<^verbatim>\<open>Table.column(name)\<close> and \<^verbatim>\<open>Table.__getitem__(name)\<close> raise \<^verbatim>\<open>KeyError\<close> unless
  exactly one field has that name; \<^verbatim>\<open>Table.select(names)\<close> looks every name up the same
  way and keeps the order asked for; \<^verbatim>\<open>Table.from_pylist([], schema)\<close> has the schema's
  columns and no rows; \<^verbatim>\<open>concat_tables\<close> refuses an empty sequence and tables whose
  schemas differ.
\<close>

definition column :: "'d table \<Rightarrow> string \<Rightarrow> error + 'd column" where
  "column tbl name =
     (case filter (\<lambda>f. fst f = name) tbl of
        [] \<Rightarrow> Inl (KeyError name)
      | [f] \<Rightarrow> Inr (snd f)
      | _ \<Rightarrow> Inl (KeyError name))"

fun select :: "'d table \<Rightarrow> string list \<Rightarrow> error + 'd table" where
  "select tbl [] = Inr []"
| "select tbl (n # ns) =
     (case column tbl n of
        Inl e \<Rightarrow> Inl e
      | Inr c \<Rightarrow> (case select tbl ns of Inl e \<Rightarrow> Inl e | Inr t \<Rightarrow> Inr ((n, c) # t)))"

definition num_rows :: "'d table \<Rightarrow> nat" where
  "num_rows tbl = (case tbl of [] \<Rightarrow> 0 | f # _ \<Rightarrow> length (snd f))"

definition from_pylist_empty :: "string list \<Rightarrow> 'd table" where
  "from_pylist_empty sch = map (\<lambda>n. (n, [])) sch"

fun append_table :: "'d table \<Rightarrow> 'd table \<Rightarrow> 'd table" where
  "append_table [] u = []"
| "append_table (f # t) [] = []"
| "append_table (f # t) (g # u) = (fst f, snd f @ snd g) # append_table t u"

fun concat_from :: "'d table \<Rightarrow> 'd table list \<Rightarrow> error + 'd table" where
  "concat_from t [] = Inr t"
| "concat_from t (u # us) =
     (if map fst u = map fst t then concat_from (append_table t u) us
      else Inl (ArrowInvalid ''Schema at index was different''))"

definition concat_tables :: "'d table list \<Rightarrow> error + 'd table" where
  "concat_tables ts =
     (case ts of
        [] \<Rightarrow> Inl (ArrowInvalid ''Must pass at least one table'')
      | t # us \<Rightarrow> concat_from t us)"

subsection \<open>Generators\<close>

text \<open>
  A finite Python generator is what is left of its run: the values it will still yield,
  in order, and how it ends, by returning (\<open>None\<close>) or by raising (\<open>Some e\<close>).
  \<open>gen_next\<close> is Python's \<^verbatim>\<open>next(gen)\<close>: a generator that has raised is finished.
\<close>

type_synonym 'a generator = "'a list \<times> error option"

datatype 'a step = Yield 'a | Raise error | StopIteration

fun gen_next :: "'a generator \<Rightarrow> 'a step \<times> 'a generator" where
  "gen_next (v # vs, e) = (Yield v, (vs, e))"
| "gen_next ([], Some e) = (Raise e, ([], None))"
| "gen_next ([], None) = (StopIteration, ([], None))"

subsection \<open>The storage collaborator\<close>

text \<open>
  tiledbsoma is outside the repository; the query layer sees it through four calls, taken
  here as parameters. A \<open>dataframe\<close> is its \<^verbatim>\<open>read_all(ids, value_filter, column_names)\<close>;
  an \<open>ndarray\<close> has its \<^verbatim>\<open>soma_type\<close>, the column names of its \<^verbatim>\<open>schema\<close> and
  \<^verbatim>\<open>read_table((obs_joinids, var_joinids))\<close>, a generator of tables. \<open>AxisQuery\<close> (module
  \<^verbatim>\<open>.axis\<close>, not among the sources) is used only through its two attributes.
\<close>

datatype coord = SliceAll | Ids "int list"

record AxisQuery =
  coords :: "coord list"
  value_filter :: "string option"

type_synonym 'd dataframe =
  "coord list \<Rightarrow> string option \<Rightarrow> string list option \<Rightarrow> error + 'd table"

record 'd ndarray =
  soma_type :: string
  schema :: "string list"
  read_table :: "'d column \<Rightarrow> 'd column \<Rightarrow> 'd table generator"

record 'd measurement =
  ms_var :: "'d dataframe"
  ms_X :: "string \<Rightarrow> 'd ndarray option"

record 'd soma_experiment =
  exp_exists :: bool
  exp_obs :: "'d dataframe"
  exp_ms :: "string \<Rightarrow> 'd measurement option"

subsection \<open>The query object\<close>

text \<open>
  One record holds the attributes of \<^verbatim>\<open>ExperimentQuery\<close> and of the \<^verbatim>\<open>AxisIndexer\<close> it
  owns (\<open>q_index\<close> is \<^verbatim>\<open>_indexer._obs_index\<close> and \<^verbatim>\<open>_indexer._var_index\<close>, the data of
  the pandas index or \<open>None\<close>). \<open>q_pool_shutdown\<close> is the state of
  \<^verbatim>\<open>_default_threadpool\<close>. \<open>q_trace\<close> is not an attribute of the Python object: it lists,
  in order, the calls the query has made on its collaborators (storage reads, the pool's
  \<^verbatim>\<open>shutdown\<close>), so that a theorem can say which reads were issued.
\<close>

datatype axis = Obs | Var

datatype event =
    AxisRead axis "string list option"
  | MatrixRead
  | PoolShutdown

record 'd ExperimentQuery =
  q_experiment :: "'d soma_experiment"
  q_ms :: string
  q_query :: "axis \<Rightarrow> AxisQuery"
  q_joinids :: "axis \<Rightarrow> 'd column option"
  q_index :: "axis \<Rightarrow> 'd column option"
  q_pool_shutdown :: bool
  q_trace :: "event list"

definition log_event :: "event \<Rightarrow> 'd ExperimentQuery \<Rightarrow> 'd ExperimentQuery" where
  "log_event ev s = s\<lparr>q_trace := q_trace s @ [ev]\<rparr>"

text \<open>\<^verbatim>\<open>ExperimentQuery.__init__\<close>: the two checks, then the attributes.\<close>

definition default_axis_query :: AxisQuery where
  "default_axis_query = \<lparr>coords = [SliceAll], value_filter = None\<rparr>"

definition ExperimentQuery_init ::
  "'d soma_experiment \<Rightarrow> string \<Rightarrow> AxisQuery option \<Rightarrow> AxisQuery option
     \<Rightarrow> error + 'd ExperimentQuery" where
  "ExperimentQuery_init exp measurement_name obs_query var_query =
     (if \<not> exp_exists exp then Inl (ValueError ''Experiment does not exist'')
      else if exp_ms exp measurement_name = None
        then Inl (ValueError ''Measurement does not exist in the experiment'')
      else Inr \<lparr>
        q_experiment = exp,
        q_ms = measurement_name,
        q_query = (\<lambda>ax. case ax of
            Obs \<Rightarrow> (case obs_query of Some q \<Rightarrow> q | None \<Rightarrow> default_axis_query)
          | Var \<Rightarrow> (case var_query of Some q \<Rightarrow> q | None \<Rightarrow> default_axis_query)),
        q_joinids = (\<lambda>ax. None),
        q_index = (\<lambda>ax. None),
        q_pool_shutdown = False,
        q_trace = []\<rparr>)"

text \<open>\<^verbatim>\<open>ExperimentQuery.close\<close>: \<^verbatim>\<open>self._default_threadpool.shutdown()\<close>.\<close>

definition close :: "'d ExperimentQuery \<Rightarrow> 'd ExperimentQuery" where
  "close s = log_event PoolShutdown (s\<lparr>q_pool_shutdown := True\<rparr>)"

text \<open>
  \<^verbatim>\<open>ExperimentQuery._read_axis_dataframe\<close>. \<open>query_columns\<close> is the column list of the
  physical read; the cache is assigned before the table is narrowed, so a \<^verbatim>\<open>KeyError\<close>
  of \<^verbatim>\<open>tbl.select\<close> leaves the cache set.
\<close>

definition query_columns_for :: "bool \<Rightarrow> string list option \<Rightarrow> string list option" where
  "query_columns_for need_joinids column_names =
     (case column_names of
        None \<Rightarrow> column_names
      | Some cs \<Rightarrow>
          if need_joinids \<and> ''soma_joinid'' \<notin> set cs then Some (''soma_joinid'' # cs)
          else column_names)"

definition read_axis_dataframe ::
  "axis \<Rightarrow> 'd dataframe \<Rightarrow> string list option \<Rightarrow> 'd ExperimentQuery
     \<Rightarrow> (error + 'd table) \<times> 'd ExperimentQuery" where
  "read_axis_dataframe ax axis_df column_names s =
     (let query = q_query s ax;
          need_joinids = (q_joinids s ax = None);
          query_columns = query_columns_for need_joinids column_names;
          s1 = log_event (AxisRead ax query_columns) s
      in case axis_df (coords query) (value_filter query) query_columns of
           Inl e \<Rightarrow> (Inl e, s1)
         | Inr tbl \<Rightarrow>
            (case (if need_joinids
                   then (case column tbl ''soma_joinid'' of
                           Inl e \<Rightarrow> Inl e
                         | Inr ids \<Rightarrow> Inr (s1\<lparr>q_joinids := (q_joinids s1)(ax := Some ids)\<rparr>))
                   else Inr s1) of
               Inl e \<Rightarrow> (Inl e, s1)
             | Inr s2 \<Rightarrow>
                (case q_joinids s2 ax of
                   None \<Rightarrow> (Inl AssertionError, s2)
                 | Some ids \<Rightarrow>
                    (case column_names of
                       None \<Rightarrow> (Inr tbl, s2)
                     | Some cs \<Rightarrow>
                        (case select tbl cs of
                           Inl e \<Rightarrow> (Inl e, s2)
                         | Inr t \<Rightarrow> (Inr t, s2))))))"

text \<open>
  \<^verbatim>\<open>ExperimentQuery._read_axis_joinids\<close> returns \<^verbatim>\<open>self._joinids[axis]\<close>, which Python
  types as optional; the accessors \<^verbatim>\<open>obs\<close>, \<^verbatim>\<open>var\<close>, \<^verbatim>\<open>obs_joinids\<close>,
  \<^verbatim>\<open>var_joinids\<close>, \<^verbatim>\<open>n_obs\<close> and \<^verbatim>\<open>n_vars\<close> pick the axis and its dataframe;
  \<open>joinids_of\<close> is \<^verbatim>\<open>obs_joinids\<close> or \<^verbatim>\<open>var_joinids\<close>, by axis.
  \<^verbatim>\<open>self.experiment.ms[self.ms]\<close> is a mapping lookup, a \<^verbatim>\<open>KeyError\<close> when absent.
\<close>

definition read_axis_joinids ::
  "axis \<Rightarrow> 'd dataframe \<Rightarrow> 'd ExperimentQuery
     \<Rightarrow> (error + 'd column option) \<times> 'd ExperimentQuery" where
  "read_axis_joinids ax axis_df s =
     (case q_joinids s ax of
        None \<Rightarrow>
          (case read_axis_dataframe ax axis_df (Some [''soma_joinid'']) s of
             (Inl e, s1) \<Rightarrow> (Inl e, s1)
           | (Inr tbl, s1) \<Rightarrow> (Inr (q_joinids s1 ax), s1))
      | Some ids \<Rightarrow> (Inr (q_joinids s ax), s))"

definition the_measurement :: "'d ExperimentQuery \<Rightarrow> error + 'd measurement" where
  "the_measurement s =
     (case exp_ms (q_experiment s) (q_ms s) of
        None \<Rightarrow> Inl (KeyError (q_ms s))
      | Some m \<Rightarrow> Inr m)"



definition obs_joinids ::
  "'d ExperimentQuery \<Rightarrow> (error + 'd column option) \<times> 'd ExperimentQuery" where
  "obs_joinids s = read_axis_joinids Obs (exp_obs (q_experiment s)) s"

definition var_joinids ::
  "'d ExperimentQuery \<Rightarrow> (error + 'd column option) \<times> 'd ExperimentQuery" where
  "var_joinids s =
     (case the_measurement s of
        Inl e \<Rightarrow> (Inl e, s)
      | Inr m \<Rightarrow> read_axis_joinids Var (ms_var m) s)"


definition joinids_of ::
  "axis \<Rightarrow> 'd ExperimentQuery \<Rightarrow> (error + 'd column option) \<times> 'd ExperimentQuery" where
  "joinids_of ax s = (case ax of Obs \<Rightarrow> obs_joinids s | Var \<Rightarrow> var_joinids s)"



subsection \<open>The worker pool\<close>

text \<open>
  \<^verbatim>\<open>ThreadPoolExecutor.submit\<close> (library code) raises \<^verbatim>\<open>RuntimeError\<close> once the pool is
  shut down. Otherwise the task runs on a worker; the model runs it at once, so two tasks
  submitted one after the other run in that order (the class is documented as not thread
  safe, and the tasks it submits together write different axes). The future is the task's
  outcome, an exception or a value.
\<close>

definition submit ::
  "('d ExperimentQuery \<Rightarrow> (error + 'r) \<times> 'd ExperimentQuery) \<Rightarrow> 'd ExperimentQuery
     \<Rightarrow> (error + (error + 'r)) \<times> 'd ExperimentQuery" where
  "submit task s =
     (if q_pool_shutdown s
      then (Inl (RuntimeError ''cannot schedule new futures after shutdown''), s)
      else (case task s of (r, s1) \<Rightarrow> (Inr r, s1)))"

subsection \<open>Generators driven from a thread\<close>

text \<open>
  \<^verbatim>\<open>wrap_generator(gen)\<close> returns the closure \<^verbatim>\<open>_next\<close>; \<open>wrap_generator gen\<close> is one
  call of that closure on the generator as it stands, with the generator it leaves. The
  values of a Python generator may be \<^verbatim>\<open>None\<close>, so they are options here.
\<close>

definition wrap_generator ::
  "'a option generator \<Rightarrow> (error + 'a option \<times> bool) \<times> 'a option generator" where
  "wrap_generator gen =
     (case gen_next gen of
        (Yield v, gen1) \<Rightarrow> (Inr (v, False), gen1)
      | (StopIteration, gen1) \<Rightarrow> (Inr (None, True), gen1)
      | (Raise e, gen1) \<Rightarrow> (Inl e, gen1))"

definition yield_then :: "'a \<Rightarrow> 'a generator \<Rightarrow> 'a generator" where
  "yield_then v g = (v # fst g, snd g)"

text \<open>
  \<^verbatim>\<open>async_iter\<close>: \<^verbatim>\<open>await to_thread(fn)\<close> is a call of \<^verbatim>\<open>fn\<close> whose result the
  coroutine waits for. The result is the asynchronous generator's own run.
\<close>

function async_iter :: "'a option generator \<Rightarrow> 'a generator" where
  "async_iter gen =
     (case wrap_generator gen of
        (Inl e, gen1) \<Rightarrow> ([], Some e)
      | (Inr (v, done), gen1) \<Rightarrow>
          if done then ([], None)
          else (case v of
                  None \<Rightarrow> ([], Some AssertionError)
                | Some x \<Rightarrow> yield_then x (async_iter gen1)))"
  by pat_completeness auto
termination
proof (relation "measure (\<lambda>gen. length (fst gen))")
  show "wf (measure (\<lambda>gen. length (fst gen)))" by simp
next
  fix gen :: "'a option generator" and r gen1 p v fin x
  assume "(r, gen1) = wrap_generator gen" "r = Inr p" "(v, fin) = p" "\<not> fin" "v = Some x"
  then show "(gen1, gen) \<in> measure (\<lambda>gen. length (fst gen))"
    by (cases gen rule: gen_next.cases) (auto simp: wrap_generator_def)
qed

declare async_iter.simps [simp del]

text \<open>
  The prefetch loop of \<^verbatim>\<open>_fetchX\<close>: \<open>fut\<close> is the outcome of the task in flight, and the
  next task is submitted before the current value is yielded.
\<close>

function prefetch_loop ::
  "bool \<Rightarrow> 'a option generator \<Rightarrow> (error + 'a option \<times> bool) \<Rightarrow> 'a generator" where
  "prefetch_loop shutdown gen fut =
     (case fut of
        Inl e \<Rightarrow> ([], Some e)
      | Inr (v, done) \<Rightarrow>
          if done then ([], None)
          else (case v of
                  None \<Rightarrow> ([], Some AssertionError)
                | Some x \<Rightarrow>
                    if shutdown
                    then ([], Some (RuntimeError ''cannot schedule new futures after shutdown''))
                    else (case wrap_generator gen of
                            (fut1, gen1) \<Rightarrow> yield_then x (prefetch_loop shutdown gen1 fut1))))"
  by pat_completeness auto
termination
proof (relation "measure (\<lambda>(shutdown, gen, fut).
          2 * length (fst gen) + (case fut of Inr (v, False) \<Rightarrow> 1 | _ \<Rightarrow> 0))")
  show "wf (measure (\<lambda>(shutdown, gen, fut).
          2 * length (fst gen) + (case fut of Inr (v, False) \<Rightarrow> (1::nat) | _ \<Rightarrow> 0)))"
    by simp
next
  fix shutdown :: bool and gen :: "'a option generator"
    and fut :: "error + 'a option \<times> bool" and p v fin x fut1 gen1
  assume "fut = Inr p" "(v, fin) = p" "\<not> fin" "v = Some x" "\<not> shutdown"
    "(fut1, gen1) = wrap_generator gen"
  then show "((shutdown, gen1, fut1), (shutdown, gen, fut))
      \<in> measure (\<lambda>(shutdown, gen, fut).
          2 * length (fst gen) + (case fut of Inr (v, False) \<Rightarrow> 1 | _ \<Rightarrow> 0))"
    by (cases gen rule: gen_next.cases) (auto simp: wrap_generator_def)
qed

declare prefetch_loop.simps [simp del]

subsection \<open>The matrix reader\<close>

text \<open>
  \<^verbatim>\<open>ExperimentQuery._fetchX\<close>. The result is the run of the generator it is: the tables
  it yields and how it ends. When an identifier array is empty it yields one table, built
  by \<^verbatim>\<open>pa.Table.from_pylist([], schema=X.schema)\<close>, and returns; storage is not read.
  \<^verbatim>\<open>X.read_table\<close> yields tables, never \<^verbatim>\<open>None\<close>: \<open>map Some\<close> hands them to
  \<^verbatim>\<open>wrap_generator\<close> as Python values.
\<close>

definition fetchX ::
  "'d ndarray \<Rightarrow> bool \<Rightarrow> 'd ExperimentQuery \<Rightarrow> 'd table generator \<times> 'd ExperimentQuery" where
  "fetchX X prefetch s =
     (case q_joinids s Obs of
        None \<Rightarrow> (([], Some AssertionError), s)
      | Some obs_ids \<Rightarrow>
         (case q_joinids s Var of
            None \<Rightarrow> (([], Some AssertionError), s)
          | Some var_ids \<Rightarrow>
              if length obs_ids = 0 \<or> length var_ids = 0
              then (([from_pylist_empty (schema X)], None), s)
              else
                (let s1 = log_event MatrixRead s;
                     gen = read_table X obs_ids var_ids
                 in if \<not> prefetch then (gen, s1)
                    else if q_pool_shutdown s1
                    then (([], Some (RuntimeError
                            ''cannot schedule new futures after shutdown'')), s1)
                    else (case wrap_generator (map Some (fst gen), snd gen) of
                            (fut, gen1) \<Rightarrow> (prefetch_loop (q_pool_shutdown s1) gen1 fut, s1)))))"

text \<open>
  \<^verbatim>\<open>ExperimentQuery.X\<close>, run to the end of the generator it is (its body, the checks
  included, starts at the first \<^verbatim>\<open>next\<close>). \<^verbatim>\<open>not self._joinids[axis]\<close> holds for
  \<^verbatim>\<open>None\<close> and for an array of length 0. The submitted tasks are only waited for: what
  they return or raise is never read.
\<close>

definition falsy_joinids :: "'d column option \<Rightarrow> bool" where
  "falsy_joinids j = (case j of None \<Rightarrow> True | Some ids \<Rightarrow> length ids = 0)"

definition submit_joinids ::
  "axis \<Rightarrow> 'd ExperimentQuery \<Rightarrow> error option \<times> 'd ExperimentQuery" where
  "submit_joinids ax s =
     (if \<not> falsy_joinids (q_joinids s ax) then (None, s)
      else (case submit (joinids_of ax) s of
              (Inl e, s1) \<Rightarrow> (Some e, s1)
            | (Inr fut, s1) \<Rightarrow> (None, s1)))"

definition query_X ::
  "string \<Rightarrow> bool \<Rightarrow> 'd ExperimentQuery \<Rightarrow> 'd table generator \<times> 'd ExperimentQuery" where
  "query_X layer prefetch s =
     (if layer = [] then (([], Some (ValueError ''Must specify X layer'')), s)
      else
        (case the_measurement s of
           Inl e \<Rightarrow> (([], Some e), s)
         | Inr m \<Rightarrow>
            (case ms_X m layer of
               None \<Rightarrow> (([], Some (ValueError ''Unknown X layer'')), s)
             | Some X \<Rightarrow>
                 if soma_type X \<noteq> ''SOMASparseNDArray''
                 then (([], Some (NotImplementedError ''Dense array unsupported'')), s)
                 else
                   (case submit_joinids Obs s of
                      (Some e, s1) \<Rightarrow> (([], Some e), s1)
                    | (None, s1) \<Rightarrow>
                       (case submit_joinids Var s1 of
                          (Some e, s2) \<Rightarrow> (([], Some e), s2)
                        | (None, s2) \<Rightarrow> fetchX X prefetch s2)))))"

text \<open>
  \<^verbatim>\<open>AsyncExperimentQuery.X\<close>: \<^verbatim>\<open>async_iter\<close> over a generator expression that passes on
  what \<^verbatim>\<open>self.query.X(layer, prefetch)\<close> yields.
\<close>

definition async_X ::
  "string \<Rightarrow> bool \<Rightarrow> 'd ExperimentQuery \<Rightarrow> 'd table generator \<times> 'd ExperimentQuery" where
  "async_X layer prefetch s =
     (case query_X layer prefetch s of
        (gen, s1) \<Rightarrow> (async_iter (map Some (fst gen), snd gen), s1))"

subsection \<open>The identifier indexer\<close>

text \<open>
  Modelled from the spec: \<^verbatim>\<open>pandas.Index.get_indexer\<close> is library code, not under the
  sources. Section 3 of the spec gives its result: the dense 0-based position of each
  identifier in the order of the cached sequence, and the sentinel -1 for an identifier
  that is not in it. pandas refuses an index with repeated values
  (\<^verbatim>\<open>InvalidIndexError\<close>), which is kept as the error branch.
\<close>

fun position_of :: "'a list \<Rightarrow> 'a \<Rightarrow> int" where
  "position_of [] x = - 1"
| "position_of (y # ys) x =
     (if x = y then 0
      else (let r = position_of ys x in if r < 0 then - 1 else r + 1))"

definition get_indexer :: "'a list \<Rightarrow> 'a list \<Rightarrow> error + int list" where
  "get_indexer idx target =
     (if distinct idx then Inr (map (position_of idx) target) else Inl InvalidIndexError)"

text \<open>
  \<^verbatim>\<open>AxisIndexer.obs_index\<close> and \<^verbatim>\<open>AxisIndexer.var_index\<close> differ in the axis only:
  \<open>axis_index\<close> is their common body.
\<close>

definition axis_index ::
  "axis \<Rightarrow> 'd column \<Rightarrow> 'd ExperimentQuery \<Rightarrow> (error + int list) \<times> 'd ExperimentQuery" where
  "axis_index ax crds s =
     (case (case q_index s ax of
              None \<Rightarrow>
                (case joinids_of ax s of
                   (Inl e, s1) \<Rightarrow> (Inl e, s1)
                 | (Inr None, s1) \<Rightarrow>
                     (Inl (AttributeError ''NoneType object has no attribute to_numpy''), s1)
                 | (Inr (Some ids), s1) \<Rightarrow>
                     (Inr ids, s1\<lparr>q_index := (q_index s1)(ax := Some ids)\<rparr>))
            | Some idx \<Rightarrow> (Inr idx, s)) of
        (Inl e, s1) \<Rightarrow> (Inl e, s1)
      | (Inr idx, s1) \<Rightarrow> (get_indexer idx crds, s1))"

definition obs_index ::
  "'d column \<Rightarrow> 'd ExperimentQuery \<Rightarrow> (error + int list) \<times> 'd ExperimentQuery" where
  "obs_index crds s = axis_index Obs crds s"

definition var_index ::
  "'d column \<Rightarrow> 'd ExperimentQuery \<Rightarrow> (error + int list) \<times> 'd ExperimentQuery" where
  "var_index crds s = axis_index Var crds s"

subsection \<open>The full read\<close>

text \<open>
  \<^verbatim>\<open>ExperimentQuery._rewrite_X_for_positional_indexing\<close>: the loop over the items of
  \<^verbatim>\<open>X_tables\<close>, a dict, here an association list in insertion order. A matrix name is
  any Python object until \<^verbatim>\<open>read\<close> has checked it: a \<^verbatim>\<open>str\<close> or something else.
  \<^verbatim>\<open>pa.Table.from_arrays\<close> refuses arrays of different lengths.
\<close>

datatype pyobj = PyStr string | PyOther

definition positional_table :: "int list \<Rightarrow> int list \<Rightarrow> 'd column \<Rightarrow> error + 'd table" where
  "positional_table p0 p1 dat =
     (if length p0 = length p1 \<and> length p1 = length dat
      then Inr [(''_dim_0'', map Int64 p0), (''_dim_1'', map Int64 p1), (''soma_data'', dat)]
      else Inl (ArrowInvalid ''Column lengths differ''))"

fun rewrite_items ::
  "(pyobj \<times> 'd table) list \<Rightarrow> (pyobj \<times> 'd table) list \<Rightarrow> 'd ExperimentQuery
     \<Rightarrow> (error + (pyobj \<times> 'd table) list) \<times> 'd ExperimentQuery" where
  "rewrite_items [] new_X_tables s = (Inr new_X_tables, s)"
| "rewrite_items (item # items) new_X_tables s =
     (case column (snd item) ''soma_dim_0'' of
        Inl e \<Rightarrow> (Inl e, s)
      | Inr d0 \<Rightarrow>
         (case obs_index d0 s of
            (Inl e, s1) \<Rightarrow> (Inl e, s1)
          | (Inr p0, s1) \<Rightarrow>
             (case column (snd item) ''soma_dim_1'' of
                Inl e \<Rightarrow> (Inl e, s1)
              | Inr d1 \<Rightarrow>
                 (case var_index d1 s1 of
                    (Inl e, s2) \<Rightarrow> (Inl e, s2)
                  | (Inr p1, s2) \<Rightarrow>
                     (case column (snd item) ''soma_data'' of
                        Inl e \<Rightarrow> (Inl e, s2)
                      | Inr dat \<Rightarrow>
                         (case positional_table p0 p1 dat of
                            Inl e \<Rightarrow> (Inl e, s2)
                          | Inr t \<Rightarrow>
                              rewrite_items items
                                (AList.update (fst item) t new_X_tables) s2))))))"

definition rewrite_X_for_positional_indexing ::
  "(pyobj \<times> 'd table) list \<Rightarrow> 'd ExperimentQuery
     \<Rightarrow> (error + (pyobj \<times> 'd table) list) \<times> 'd ExperimentQuery" where
  "rewrite_X_for_positional_indexing X_tables s = rewrite_items X_tables [] s"

text \<open>
  \<^verbatim>\<open>ExperimentQuery.read\<close>, in the order of its statements: the loop that checks the
  matrix names; the defaults of \<^verbatim>\<open>column_names\<close>, assigned into the caller's dict; the
  two axis reads submitted to the pool and their results taken in order; the dict
  comprehension that reads every matrix to the end with \<^verbatim>\<open>pa.concat_tables\<close>; the
  positional rewrite; the result. The third component of the value of \<open>read\<close> is the
  caller's \<^verbatim>\<open>column_names\<close> object as the call leaves it (\<open>None\<close> when the caller
  passed none).
\<close>

fun check_X_names :: "(string \<Rightarrow> 'd ndarray option) \<Rightarrow> pyobj list \<Rightarrow> error option" where
  "check_X_names X_collection [] = None"
| "check_X_names X_collection (xname # xnames) =
     (case xname of
        PyOther \<Rightarrow> Some (ValueError ''X layer names must be specified as a string.'')
      | PyStr nm \<Rightarrow>
          if nm = [] then Some (ValueError ''X layer names must be specified as a string.'')
          else (case X_collection nm of
                  None \<Rightarrow> Some (ValueError ''Unknown X layer name'')
                | Some arr \<Rightarrow>
                    if soma_type arr \<noteq> ''SOMASparseNDArray''
                    then Some (NotImplementedError ''Dense array unsupported'')
                    else check_X_names X_collection xnames))"

type_synonym colnames = "(string \<times> string list option) list"

definition default_column_names :: "colnames option \<Rightarrow> colnames" where
  "default_column_names column_names =
     (let cn0 = (case column_names of None \<Rightarrow> [(''obs'', None), (''var'', None)] | Some d \<Rightarrow> d);
          cn1 = (if map_of cn0 ''obs'' = None then AList.update ''obs'' None cn0 else cn0);
          cn2 = (if map_of cn1 ''var'' = None then AList.update ''var'' None cn1 else cn1)
      in cn2)"

definition dict_get :: "colnames \<Rightarrow> string \<Rightarrow> error + string list option" where
  "dict_get d k = (case map_of d k of None \<Rightarrow> Inl (KeyError k) | Some v \<Rightarrow> Inr v)"

definition lookup_X :: "(string \<Rightarrow> 'd ndarray option) \<Rightarrow> pyobj \<Rightarrow> error + 'd ndarray" where
  "lookup_X X_collection xname =
     (case xname of
        PyOther \<Rightarrow> Inl (KeyError ''X'')
      | PyStr nm \<Rightarrow> (case X_collection nm of None \<Rightarrow> Inl (KeyError nm) | Some arr \<Rightarrow> Inr arr))"

definition concat_generator :: "'d table generator \<Rightarrow> error + 'd table" where
  "concat_generator gen = (case snd gen of Some e \<Rightarrow> Inl e | None \<Rightarrow> concat_tables (fst gen))"

fun read_X_tables ::
  "(string \<Rightarrow> 'd ndarray option) \<Rightarrow> pyobj list \<Rightarrow> (pyobj \<times> 'd table) list
     \<Rightarrow> 'd ExperimentQuery \<Rightarrow> (error + (pyobj \<times> 'd table) list) \<times> 'd ExperimentQuery" where
  "read_X_tables X_collection [] X_tables s = (Inr X_tables, s)"
| "read_X_tables X_collection (xname # xnames) X_tables s =
     (case lookup_X X_collection xname of
        Inl e \<Rightarrow> (Inl e, s)
      | Inr arr \<Rightarrow>
         (case fetchX arr True s of
            (gen, s1) \<Rightarrow>
              (case concat_generator gen of
                 Inl e \<Rightarrow> (Inl e, s1)
               | Inr t \<Rightarrow>
                   read_X_tables X_collection xnames (AList.update xname t X_tables) s1)))"

record 'd read_result =
  r_obs :: "'d table"
  r_var :: "'d table"
  r_X :: "'d table"
  r_X_layers :: "(pyobj \<times> 'd table) list option"

definition read_axes ::
  "'d measurement \<Rightarrow> colnames \<Rightarrow> 'd ExperimentQuery
     \<Rightarrow> (error + 'd table \<times> 'd table) \<times> 'd ExperimentQuery" where
  "read_axes m cn s =
     (case dict_get cn ''obs'' of
        Inl e \<Rightarrow> (Inl e, s)
      | Inr obs_cols \<Rightarrow>
         (case submit (read_axis_dataframe Obs (exp_obs (q_experiment s)) obs_cols) s of
            (Inl e, s1) \<Rightarrow> (Inl e, s1)
          | (Inr f_obs, s1) \<Rightarrow>
             (case dict_get cn ''var'' of
                Inl e \<Rightarrow> (Inl e, s1)
              | Inr var_cols \<Rightarrow>
                 (case submit (read_axis_dataframe Var (ms_var m) var_cols) s1 of
                    (Inl e, s2) \<Rightarrow> (Inl e, s2)
                  | (Inr f_var, s2) \<Rightarrow>
                     (case f_obs of
                        Inl e \<Rightarrow> (Inl e, s2)
                      | Inr obs_table \<Rightarrow>
                         (case f_var of
                            Inl e \<Rightarrow> (Inl e, s2)
                          | Inr var_table \<Rightarrow> (Inr (obs_table, var_table), s2)))))))"

definition make_result ::
  "pyobj \<Rightarrow> pyobj list \<Rightarrow> 'd table \<Rightarrow> 'd table \<Rightarrow> (pyobj \<times> 'd table) list
     \<Rightarrow> error + 'd read_result" where
  "make_result X_name X_layers obs_table var_table X_tables =
     (case map_of X_tables X_name of
        None \<Rightarrow> Inl (KeyError ''X_name'')
      | Some X \<Rightarrow>
         (let rest = AList.delete X_name X_tables
          in if length X_layers > 0
             then (if length X_layers = length rest
                   then Inr \<lparr>r_obs = obs_table, r_var = var_table, r_X = X,
                             r_X_layers = Some rest\<rparr>
                   else Inl AssertionError)
             else Inr \<lparr>r_obs = obs_table, r_var = var_table, r_X = X,
                       r_X_layers = None\<rparr>))"

definition read_checked ::
  "'d measurement \<Rightarrow> pyobj \<Rightarrow> bool \<Rightarrow> colnames \<Rightarrow> pyobj list \<Rightarrow> 'd ExperimentQuery
     \<Rightarrow> (error + 'd read_result) \<times> 'd ExperimentQuery" where
  "read_checked m X_name use_position_indexing cn X_layers s =
     (case read_axes m cn s of
        (Inl e, s1) \<Rightarrow> (Inl e, s1)
      | (Inr (obs_table, var_table), s1) \<Rightarrow>
         (case read_X_tables (ms_X m) (X_name # X_layers) [] s1 of
            (Inl e, s2) \<Rightarrow> (Inl e, s2)
          | (Inr X_tables, s2) \<Rightarrow>
             (case (if use_position_indexing
                    then rewrite_X_for_positional_indexing X_tables s2
                    else (Inr X_tables, s2)) of
                (Inl e, s3) \<Rightarrow> (Inl e, s3)
              | (Inr X_tables1, s3) \<Rightarrow>
                  (make_result X_name X_layers obs_table var_table X_tables1, s3))))"

definition read ::
  "pyobj \<Rightarrow> bool \<Rightarrow> colnames option \<Rightarrow> pyobj list option \<Rightarrow> 'd ExperimentQuery
     \<Rightarrow> (error + 'd read_result) \<times> 'd ExperimentQuery \<times> colnames option" where
  "read X_name use_position_indexing column_names X_layers s =
     (case the_measurement s of
        Inl e \<Rightarrow> (Inl e, s, column_names)
      | Inr m \<Rightarrow>
         (let X_layers1 = (case X_layers of None \<Rightarrow> [] | Some l \<Rightarrow> l);
              all_X_names = X_name # X_layers1
          in case check_X_names (ms_X m) all_X_names of
               Some e \<Rightarrow> (Inl e, s, column_names)
             | None \<Rightarrow>
                (let cn = default_column_names column_names
                 in case read_checked m X_name use_position_indexing cn X_layers1 s of
                      (r, s1) \<Rightarrow>
                        (r, s1, (case column_names of None \<Rightarrow> None | Some d \<Rightarrow> Some cn)))))"

subsection \<open>The scoped helper\<close>

text \<open>
  \<^verbatim>\<open>experiment_query\<close> is a generator function under \<^verbatim>\<open>@contextmanager\<close>. Its body has
  three parts: the statement before the \<^verbatim>\<open>yield\<close>, run by \<^verbatim>\<open>__enter__\<close>; the statement
  after it, run when \<^verbatim>\<open>__exit__\<close> resumes the generator after a body that ended
  normally; and what the \<^verbatim>\<open>yield\<close> does with an exception that \<^verbatim>\<open>__exit__\<close> throws
  into the generator after a body that raised. The \<^verbatim>\<open>yield\<close> stands in no \<^verbatim>\<open>try\<close>
  block, so that exception leaves the generator at once and the statement after the
  \<^verbatim>\<open>yield\<close> does not run. \<open>with_experiment_query\<close> is the statement
  \<^verbatim>\<open>with experiment_query(...) as query: body\<close>; it returns the query as the statement
  leaves it, when one was constructed.
\<close>

definition experiment_query_enter ::
  "'d soma_experiment \<Rightarrow> string \<Rightarrow> AxisQuery option \<Rightarrow> AxisQuery option
     \<Rightarrow> error + 'd ExperimentQuery" where
  "experiment_query_enter exp measurement_name obs_query var_query =
     ExperimentQuery_init exp measurement_name obs_query var_query"

definition experiment_query_resume :: "'d ExperimentQuery \<Rightarrow> 'd ExperimentQuery" where
  "experiment_query_resume query = close query"

definition experiment_query_throw ::
  "error \<Rightarrow> 'd ExperimentQuery \<Rightarrow> error \<times> 'd ExperimentQuery" where
  "experiment_query_throw e query = (e, query)"

definition with_experiment_query ::
  "'d soma_experiment \<Rightarrow> string \<Rightarrow> AxisQuery option \<Rightarrow> AxisQuery option
     \<Rightarrow> ('d ExperimentQuery \<Rightarrow> (error + 'r) \<times> 'd ExperimentQuery)
     \<Rightarrow> (error + 'r) \<times> 'd ExperimentQuery option" where
  "with_experiment_query exp measurement_name obs_query var_query body =
     (case experiment_query_enter exp measurement_name obs_query var_query of
        Inl e \<Rightarrow> (Inl e, None)
      | Inr query \<Rightarrow>
         (case body query of
            (Inr r, q1) \<Rightarrow> (Inr r, Some (experiment_query_resume q1))
          | (Inl e, q1) \<Rightarrow>
             (case experiment_query_throw e q1 of (e1, q2) \<Rightarrow> (Inl e1, Some q2))))"

definition close_calls :: "'d ExperimentQuery \<Rightarrow> nat" where
  "close_calls s = length (filter (\<lambda>ev. ev = PoolShutdown) (q_trace s))"

section \<open>Notions the claims are stated with\<close>

text \<open>The class name of the exception a result carries, if it carries one.\<close>

definition raised_class :: "error + 'a \<Rightarrow> string option" where
  "raised_class r = (case r of Inl e \<Rightarrow> Some (exc_class e) | Inr v \<Rightarrow> None)"

text \<open>
  A matrix name as \<^verbatim>\<open>read\<close> and \<^verbatim>\<open>X\<close> judge it. It is malformed when it is not a
  string, is empty or is not in the measurement's matrix collection; it is not sparse when
  it names a matrix whose \<^verbatim>\<open>soma_type\<close> is not \<^verbatim>\<open>SOMASparseNDArray\<close>.
\<close>

definition malformed_name :: "(string \<Rightarrow> 'd ndarray option) \<Rightarrow> pyobj \<Rightarrow> bool" where
  "malformed_name X_collection n =
     (case n of PyOther \<Rightarrow> True | PyStr nm \<Rightarrow> nm = [] \<or> X_collection nm = None)"

definition not_sparse_name :: "(string \<Rightarrow> 'd ndarray option) \<Rightarrow> pyobj \<Rightarrow> bool" where
  "not_sparse_name X_collection n =
     (case n of
        PyOther \<Rightarrow> False
      | PyStr nm \<Rightarrow>
          nm \<noteq> [] \<and> (case X_collection nm of
                       None \<Rightarrow> False
                     | Some arr \<Rightarrow> soma_type arr \<noteq> ''SOMASparseNDArray''))"

text \<open>
  The column list \<^verbatim>\<open>read\<close> uses for an axis: all columns (\<open>None\<close>) when the
  caller's mapping has no such key or maps it to \<^verbatim>\<open>None\<close>, and when the caller passed
  no mapping.
\<close>

definition axis_columns :: "colnames \<Rightarrow> string \<Rightarrow> string list option" where
  "axis_columns d k = (case map_of d k of None \<Rightarrow> None | Some v \<Rightarrow> v)"

definition requested_columns :: "colnames option \<Rightarrow> string \<Rightarrow> string list option" where
  "requested_columns column_names k =
     (case column_names of None \<Rightarrow> None | Some d \<Rightarrow> axis_columns d k)"

text \<open>
  A table with no cell in any column, and a schema in which each of the three columns of
  a SOMA sparse matrix occurs once.
\<close>

definition no_rows :: "'d table \<Rightarrow> bool" where
  "no_rows t = list_all (\<lambda>f. snd f = []) t"

definition sparse_fields :: "string list \<Rightarrow> bool" where
  "sparse_fields names \<longleftrightarrow>
     length (filter (\<lambda>n. n = ''soma_dim_0'') names) = 1
   \<and> length (filter (\<lambda>n. n = ''soma_dim_1'') names) = 1
   \<and> length (filter (\<lambda>n. n = ''soma_data'') names) = 1"

text \<open>
  \<open>index_consistent\<close>: an index of the \<^verbatim>\<open>AxisIndexer\<close> that has been built holds
  the cached identifiers of its axis. It holds of a new query and every operation keeps
  it (\<open>evolves\<close> below).
\<close>

definition index_consistent :: "'d ExperimentQuery \<Rightarrow> bool" where
  "index_consistent s \<longleftrightarrow>
     (q_index s Obs = None \<or> q_index s Obs = q_joinids s Obs)
   \<and> (q_index s Var = None \<or> q_index s Var = q_joinids s Var)"




text \<open>
  \<open>evolves s t\<close>: \<open>t\<close> is a later state of the query \<open>s\<close>. The experiment, the
  measurement and the filters are the same, a pool that was shut down stays so, a cache
  or index that was set holds the same value, and a consistent index stays consistent.
  \<open>same_pool\<close> adds that the pool is as it was.
\<close>

definition evolves :: "'d ExperimentQuery \<Rightarrow> 'd ExperimentQuery \<Rightarrow> bool" where
  "evolves s t \<longleftrightarrow>
     q_experiment t = q_experiment s \<and> q_ms t = q_ms s \<and> q_query t = q_query s
   \<and> (q_pool_shutdown s \<longrightarrow> q_pool_shutdown t)
   \<and> (\<forall>ax ids. q_joinids s ax = Some ids \<longrightarrow> q_joinids t ax = Some ids)
   \<and> (\<forall>ax idx. q_index s ax = Some idx \<longrightarrow> q_index t ax = Some idx)
   \<and> (index_consistent s \<longrightarrow> index_consistent t)"

definition same_pool :: "'d ExperimentQuery \<Rightarrow> 'd ExperimentQuery \<Rightarrow> bool" where
  "same_pool s t \<longleftrightarrow> evolves s t \<and> q_pool_shutdown t = q_pool_shutdown s"

section \<open>A small experiment\<close>

text \<open>
  The data of the end-to-end scenario of the spec (section 8, item 7): observations 10, 20
  and 30, variables 1 and 2, and a sparse matrix \<open>raw\<close> stored in two chunks with the cells
  (10, 1, 5.0), (20, 2, 7.0) and (99, 1, 1.0); beside it a dense matrix. The example
  storage returns every row, projects the columns asked for, and filters the matrix by
  the two identifier arrays. The theorems below are about every storage; this one
  instantiates them.
\<close>

definition ex_obs_table :: "string table" where
  "ex_obs_table = [(''soma_joinid'', [Int64 10, Int64 20, Int64 30]),
                   (''cell_type'', [Data ''T'', Data ''B'', Data ''T'']),
                   (''tissue'', [Data ''lung'', Data ''lung'', Data ''skin''])]"

definition ex_var_table :: "string table" where
  "ex_var_table = [(''soma_joinid'', [Int64 1, Int64 2]),
                   (''feature_name'', [Data ''Gm53058'', Data ''Rik''])]"

definition ex_dataframe :: "string table \<Rightarrow> string dataframe" where
  "ex_dataframe stored crds vf cols =
     (case cols of None \<Rightarrow> Inr stored | Some cs \<Rightarrow> select stored cs)"

definition ex_chunk :: "(int \<times> int \<times> string) list \<Rightarrow> string table" where
  "ex_chunk cells =
     [(''soma_dim_0'', map (\<lambda>c. Int64 (fst c)) cells),
      (''soma_dim_1'', map (\<lambda>c. Int64 (fst (snd c))) cells),
      (''soma_data'', map (\<lambda>c. Data (snd (snd c))) cells)]"

definition ex_read_table ::
  "(int \<times> int \<times> string) list list \<Rightarrow> string column \<Rightarrow> string column
     \<Rightarrow> string table generator" where
  "ex_read_table chunks obs_ids var_ids =
     (map (\<lambda>ch. ex_chunk (filter (\<lambda>c. Int64 (fst c) \<in> set obs_ids
                                      \<and> Int64 (fst (snd c)) \<in> set var_ids) ch)) chunks,
      None)"

definition ex_raw :: "string ndarray" where
  "ex_raw = \<lparr>soma_type = ''SOMASparseNDArray'',
            schema = [''soma_dim_0'', ''soma_dim_1'', ''soma_data''],
            read_table = ex_read_table [[(10, 1, ''5.0''), (20, 2, ''7.0'')], [(99, 1, ''1.0'')]]\<rparr>"

definition ex_dense :: "string ndarray" where
  "ex_dense = \<lparr>soma_type = ''SOMADenseNDArray'',
              schema = [''soma_dim_0'', ''soma_dim_1'', ''soma_data''],
              read_table = (\<lambda>obs_ids var_ids. ([], None))\<rparr>"

definition ex_measurement :: "string measurement" where
  "ex_measurement = \<lparr>ms_var = ex_dataframe ex_var_table,
                    ms_X = map_of [(''raw'', ex_raw), (''dense'', ex_dense)]\<rparr>"

definition ex_experiment :: "string soma_experiment" where
  "ex_experiment = \<lparr>exp_exists = True, exp_obs = ex_dataframe ex_obs_table,
                   exp_ms = map_of [(''RNA'', ex_measurement)]\<rparr>"

definition ex_query :: "string ExperimentQuery" where
  "ex_query = projr (ExperimentQuery_init ex_experiment ''RNA'' None None)"

text \<open>
  More of the same experiment: one whose handle does not resolve, one whose obs storage
  fails, one whose obs filter selects no row; a body for the scoped helper that asks for a
  matrix that does not exist, and one that reads; a list of operations.
\<close>

definition ex_missing_experiment :: "string soma_experiment" where
  "ex_missing_experiment = ex_experiment\<lparr>exp_exists := False\<rparr>"


definition ex_empty_query :: "string ExperimentQuery" where
  "ex_empty_query =
     projr (ExperimentQuery_init
       (ex_experiment\<lparr>exp_obs := ex_dataframe
          [(''soma_joinid'', []), (''cell_type'', []), (''tissue'', [])]\<rparr>) ''RNA'' None None)"

definition ex_failing_body ::
  "string ExperimentQuery \<Rightarrow> (error + string read_result) \<times> string ExperimentQuery" where
  "ex_failing_body q = (case read (PyStr ''nope'') False None None q of (r, q1, cn) \<Rightarrow> (r, q1))"

definition ex_reading_body ::
  "string ExperimentQuery \<Rightarrow> (error + string read_result) \<times> string ExperimentQuery" where
  "ex_reading_body q = (case read (PyStr ''raw'') False None None q of (r, q1, cn) \<Rightarrow> (r, q1))"


section \<open>Lemmas\<close>

subsection \<open>Tables\<close>

lemma column_unique:
  "length (filter (\<lambda>f. fst f = n) tbl) = 1 \<Longrightarrow> \<exists>c. column tbl n = Inr c"
  by (cases "filter (\<lambda>f. fst f = n) tbl" rule: list.exhaust; simp add: column_def split: list.splits)

lemma select_unique:
  "\<forall>n\<in>set cols. length (filter (\<lambda>f. fst f = n) tbl) = 1
   \<Longrightarrow> \<exists>out. select tbl cols = Inr out \<and> map fst out = cols"
proof (induction cols)
  case Nil
  then show ?case by simp
next
  case (Cons n ns)
  then obtain c where "column tbl n = Inr c" using column_unique by fastforce
  moreover from Cons obtain out where "select tbl ns = Inr out" "map fst out = ns" by auto
  ultimately show ?case by simp
qed

lemma num_rows_from_pylist_empty [simp]: "num_rows (from_pylist_empty sch) = 0"
  by (cases sch) (simp_all add: num_rows_def from_pylist_empty_def)

lemma no_rows_num_rows: "no_rows t \<Longrightarrow> num_rows t = 0"
  by (cases t) (simp_all add: no_rows_def num_rows_def)

lemma no_rows_from_pylist_empty [simp]: "no_rows (from_pylist_empty sch)"
  by (simp add: no_rows_def from_pylist_empty_def list_all_iff)

lemma fields_from_pylist_empty [simp]: "map fst (from_pylist_empty sch) = sch"
  by (simp add: from_pylist_empty_def comp_def)

lemma column_no_rows:
  assumes "no_rows t" and "length (filter (\<lambda>n. n = name) (map fst t)) = 1"
  shows "column t name = Inr []"
proof -
  have "filter (\<lambda>n. n = name) (map fst t) = map fst (filter (\<lambda>f. fst f = name) t)"
    by (simp add: filter_map comp_def)
  with assms(2) have "length (filter (\<lambda>f. fst f = name) t) = 1" by simp
  then obtain f where f: "filter (\<lambda>f. fst f = name) t = [f]"
    by (cases "filter (\<lambda>f. fst f = name) t") auto
  then have "f \<in> set (filter (\<lambda>f. fst f = name) t)" by simp
  then have "f \<in> set t" by simp
  with assms(1) have "snd f = []" by (simp add: no_rows_def list_all_iff)
  with f show ?thesis by (simp add: column_def)
qed

lemma update_vals:
  "list_all P (map snd al) \<Longrightarrow> P v \<Longrightarrow> list_all P (map snd (AList.update k v al))"
  by (induction al) auto

lemma concat_generator_single [simp]: "concat_generator ([t], None) = Inr t"
  by (simp add: concat_generator_def concat_tables_def)

subsection \<open>Generators\<close>

lemma async_iter_Nil: "async_iter ([], e) = ([], e)"
  by (cases e) (subst async_iter.simps, simp add: wrap_generator_def)+

lemma async_iter_Some: "async_iter (Some x # vs, e) = yield_then x (async_iter (vs, e))"
  by (subst async_iter.simps) (simp add: wrap_generator_def)

lemma async_iter_None: "async_iter (None # vs, e) = ([], Some AssertionError)"
  by (subst async_iter.simps) (simp add: wrap_generator_def)

lemma async_iter_pass: "async_iter (map Some vs, e) = (vs, e)"
  by (induction vs) (simp_all add: async_iter_Nil async_iter_Some yield_then_def)

lemma prefetch_loop_Some:
  "prefetch_loop False gen (Inr (Some x, False))
     = yield_then x (prefetch_loop False (snd (wrap_generator gen)) (fst (wrap_generator gen)))"
  by (subst prefetch_loop.simps) (simp add: case_prod_beta)

lemma prefetch_loop_done: "prefetch_loop sd gen (Inr (v, True)) = ([], None)"
  by (subst prefetch_loop.simps) simp

lemma prefetch_loop_raise: "prefetch_loop sd gen (Inl e) = ([], Some e)"
  by (subst prefetch_loop.simps) simp

lemma prefetch_loop_pass:
  "prefetch_loop False (snd (wrap_generator (map Some vs, e)))
     (fst (wrap_generator (map Some vs, e))) = (vs, e)"
proof (induction vs)
  case Nil
  show ?case
    by (cases e) (simp_all add: wrap_generator_def prefetch_loop_done prefetch_loop_raise)
next
  case (Cons v vs)
  then show ?case
    by (simp add: wrap_generator_def prefetch_loop_Some yield_then_def)
qed

lemma fetchX_prefetch_same:
  "\<not> q_pool_shutdown s \<Longrightarrow> fetchX X True s = fetchX X False s"
  by (auto simp: fetchX_def Let_def log_event_def case_prod_beta prefetch_loop_pass
           split: option.splits)

subsection \<open>How an operation changes the query\<close>

text \<open>
  A query that \<^verbatim>\<open>__init__\<close> has constructed: nothing cached, nothing read, the pool
  running, the measurement found, the indexer consistent.
\<close>

lemma init_query:
  assumes "ExperimentQuery_init exp measurement_name obs_query var_query = Inr q"
  shows "index_consistent q \<and> (\<exists>m. the_measurement q = Inr m) \<and> \<not> q_pool_shutdown q
       \<and> q_joinids q = (\<lambda>ax. None) \<and> q_trace q = []"
  using assms
  by (auto simp: ExperimentQuery_init_def index_consistent_def the_measurement_def
           split: if_splits)

lemma index_consistent_ax:
  "index_consistent s \<Longrightarrow> q_index s ax = None \<or> q_index s ax = q_joinids s ax"
  by (cases ax) (simp_all add: index_consistent_def)

lemma evolves_refl [simp]: "evolves s s"
  by (simp add: evolves_def)

lemma evolves_trans: "evolves s t \<Longrightarrow> evolves t u \<Longrightarrow> evolves s u"
  by (simp add: evolves_def)

lemma evolves_log [simp]: "evolves s (log_event ev s)"
  by (simp add: evolves_def log_event_def index_consistent_def)

lemma evolves_measurement: "evolves s t \<Longrightarrow> the_measurement t = the_measurement s"
  by (simp add: evolves_def the_measurement_def split: option.splits)


lemma same_pool_refl [simp]: "same_pool s s"
  by (simp add: same_pool_def)

lemma same_pool_trans: "same_pool s t \<Longrightarrow> same_pool t u \<Longrightarrow> same_pool s u"
  by (auto simp: same_pool_def intro: evolves_trans)

lemma same_pool_log [simp]: "same_pool s (log_event ev s)"
  by (simp add: same_pool_def) (simp add: log_event_def)


lemma read_axis_dataframe_same_pool:
  "read_axis_dataframe ax df cols s = (r, t) \<Longrightarrow> same_pool s t"
  by (auto simp: read_axis_dataframe_def Let_def evolves_def same_pool_def log_event_def
        index_consistent_def split: sum.splits option.splits if_splits)


lemma read_axis_dataframe_other:
  "read_axis_dataframe ax df cols s = (r, t) \<Longrightarrow> ax' \<noteq> ax \<Longrightarrow> q_joinids t ax' = q_joinids s ax'"
  by (auto simp: read_axis_dataframe_def Let_def log_event_def
           split: sum.splits option.splits if_splits)

lemma read_axis_dataframe_ok_cached:
  "read_axis_dataframe ax df cols s = (Inr tbl, t) \<Longrightarrow> q_joinids t ax \<noteq> None"
  by (auto simp: read_axis_dataframe_def Let_def log_event_def
           split: sum.splits option.splits if_splits)


lemma read_axis_joinids_same_pool:
  "read_axis_joinids ax df s = (r, t) \<Longrightarrow> same_pool s t"
  by (auto simp: read_axis_joinids_def split: option.splits sum.splits prod.splits
           dest: read_axis_dataframe_same_pool)

lemma read_axis_joinids_cached:
  "q_joinids s ax = Some ids \<Longrightarrow> read_axis_joinids ax df s = (Inr (Some ids), s)"
  by (simp add: read_axis_joinids_def)

lemma read_axis_joinids_result:
  "read_axis_joinids ax df s = (Inr j, t) \<Longrightarrow> q_joinids t ax = j \<and> j \<noteq> None"
proof (cases "q_joinids s ax")
  case None
  assume "read_axis_joinids ax df s = (Inr j, t)"
  with None show ?thesis
    by (auto simp: read_axis_joinids_def split: sum.splits prod.splits
             dest: read_axis_dataframe_ok_cached)
next
  case (Some ids)
  assume "read_axis_joinids ax df s = (Inr j, t)"
  with Some show ?thesis by (cases j) (auto simp: read_axis_joinids_def)
qed



lemma joinids_of_same_pool: "joinids_of ax s = (r, t) \<Longrightarrow> same_pool s t"
  by (auto simp: joinids_of_def obs_joinids_def var_joinids_def
           split: axis.splits sum.splits dest: read_axis_joinids_same_pool)

lemma joinids_of_cached:
  "q_joinids s ax = Some ids \<Longrightarrow> the_measurement s = Inr m
   \<Longrightarrow> joinids_of ax s = (Inr (Some ids), s)"
  by (auto simp: joinids_of_def obs_joinids_def var_joinids_def read_axis_joinids_cached
           split: axis.splits sum.splits)

lemma joinids_of_result:
  "joinids_of ax s = (Inr j, t) \<Longrightarrow> q_joinids t ax = j \<and> j \<noteq> None"
  by (auto simp: joinids_of_def obs_joinids_def var_joinids_def
           split: axis.splits sum.splits dest: read_axis_joinids_result)






lemma submit_same_pool:
  "(\<And>r t. task s = (r, t) \<Longrightarrow> same_pool s t) \<Longrightarrow> submit task s = (f, u) \<Longrightarrow> same_pool s u"
  by (auto simp: submit_def split: if_splits prod.splits)


lemma submit_joinids_resolved:
  assumes pool: "\<not> q_pool_shutdown s" and j: "joinids_of ax s = (Inr (Some ids), t)"
  shows "submit_joinids ax s = (None, t)"
proof (cases "falsy_joinids (q_joinids s ax)")
  case True
  with pool j show ?thesis by (simp add: submit_joinids_def submit_def)
next
  case False
  then obtain c where c: "q_joinids s ax = Some c" by (auto simp: falsy_joinids_def split: option.splits)
  have "joinids_of ax s = (Inr (Some c), s) \<or> (\<exists>e. joinids_of ax s = (Inl e, s))"
    using c
    by (auto simp: joinids_of_def obs_joinids_def var_joinids_def read_axis_joinids_cached
             split: axis.splits sum.splits)
  with j have "t = s" by auto
  with False show ?thesis by (simp add: submit_joinids_def)
qed


lemma fetchX_empty:
  assumes "q_joinids s Obs = Some obs_ids" and "q_joinids s Var = Some var_ids"
    and "obs_ids = [] \<or> var_ids = []"
  shows "fetchX X prefetch s = (([from_pylist_empty (schema X)], None), s)"
  using assms by (auto simp: fetchX_def)


lemma query_X_empty:
  assumes ms: "the_measurement s = Inr m"
    and layer: "layer \<noteq> []" "ms_X m layer = Some X" "soma_type X = ''SOMASparseNDArray''"
    and pool: "\<not> q_pool_shutdown s"
    and jo: "joinids_of Obs s = (Inr (Some obs_ids), s1)"
    and jv: "joinids_of Var s1 = (Inr (Some var_ids), s2)"
    and empty: "obs_ids = [] \<or> var_ids = []"
  shows "query_X layer prefetch s = (([from_pylist_empty (schema X)], None), s2)"
proof -
  have a: "submit_joinids Obs s = (None, s1)"
    using pool jo by (rule submit_joinids_resolved)
  from jo have p1: "same_pool s s1" by (rule joinids_of_same_pool)
  with pool have "\<not> q_pool_shutdown s1" by (simp add: same_pool_def)
  then have b: "submit_joinids Var s1 = (None, s2)"
    using jv by (rule submit_joinids_resolved)
  from jo have "q_joinids s1 Obs = Some obs_ids" using joinids_of_result by blast
  moreover from jv have p2: "same_pool s1 s2" by (rule joinids_of_same_pool)
  ultimately have o: "q_joinids s2 Obs = Some obs_ids"
    by (simp add: same_pool_def evolves_def)
  from jv have v: "q_joinids s2 Var = Some var_ids" using joinids_of_result by blast
  from o v empty have "fetchX X prefetch s2 = (([from_pylist_empty (schema X)], None), s2)"
    by (rule fetchX_empty)
  with ms layer a b show ?thesis by (simp add: query_X_def)
qed


lemma read_axes_same_pool: "read_axes m cn s = (r, t) \<Longrightarrow> same_pool s t"
proof -
  assume a: "read_axes m cn s = (r, t)"
  have sub: "submit (read_axis_dataframe ax df cols) u = (f, v) \<Longrightarrow> same_pool u v"
    for ax df cols f and u v :: "'a ExperimentQuery"
    by (rule submit_same_pool) (auto dest: read_axis_dataframe_same_pool)
  from a show ?thesis
    by (auto simp: read_axes_def split: sum.splits prod.splits
             dest!: sub intro: same_pool_trans)
qed








subsection \<open>The indexer\<close>

lemma position_of_absent: "x \<notin> set ids \<Longrightarrow> position_of ids x = - 1"
  by (induction ids) (simp_all add: Let_def)

lemma position_of_nonneg: "x \<in> set ids \<Longrightarrow> 0 \<le> position_of ids x"
  by (induction ids) (auto simp: Let_def)

lemma position_of_nth:
  "distinct ids \<Longrightarrow> i < length ids \<Longrightarrow> position_of ids (ids ! i) = int i"
proof (induction ids arbitrary: i)
  case Nil
  then show ?case by simp
next
  case (Cons y ys)
  show ?case
  proof (cases i)
    case 0
    then show ?thesis by simp
  next
    case (Suc k)
    with Cons.prems have k: "k < length ys" "ys ! k \<noteq> y" "distinct ys" by auto
    with Cons.IH have "position_of ys (ys ! k) = int k" by simp
    with Suc k show ?thesis by (simp add: Let_def)
  qed
qed

lemma map_position_of_self:
  "distinct ids \<Longrightarrow> map (position_of ids) ids = map int [0..<length ids]"
  by (rule nth_equalityI) (simp_all add: position_of_nth)

lemma axis_index_result:
  assumes j: "joinids_of ax s = (Inr (Some ids), s1)"
    and ic: "index_consistent s"
    and d: "distinct ids"
  shows "\<exists>s2. axis_index ax crds s = (Inr (map (position_of ids) crds), s2)"
proof (cases "q_index s ax")
  case None
  with j d show ?thesis by (simp add: axis_index_def get_indexer_def)
next
  case (Some idx)
  from index_consistent_ax [OF ic, of ax] Some have c: "q_joinids s ax = Some idx" by auto
  have "joinids_of ax s = (Inr (Some idx), s) \<or> (\<exists>e. joinids_of ax s = (Inl e, s))"
    using c
    by (auto simp: joinids_of_def obs_joinids_def var_joinids_def read_axis_joinids_cached
             split: axis.splits sum.splits)
  with j have "idx = ids" by auto
  with Some d show ?thesis by (simp add: axis_index_def get_indexer_def)
qed

lemma axis_index_cached:
  assumes c: "q_joinids s ax = Some ids" and ms: "the_measurement s = Inr m"
    and ic: "index_consistent s" and d: "distinct ids"
  shows "axis_index ax crds s
           = (Inr (map (position_of ids) crds), s\<lparr>q_index := (q_index s)(ax := Some ids)\<rparr>)"
proof (cases "q_index s ax")
  case None
  with joinids_of_cached [OF c ms] d show ?thesis
    by (simp add: axis_index_def get_indexer_def)
next
  case (Some idx)
  from index_consistent_ax [OF ic, of ax] Some c have "idx = ids" by auto
  with Some have "(q_index s)(ax := Some ids) = q_index s" by (simp add: fun_upd_idem)
  with Some \<open>idx = ids\<close> d show ?thesis by (simp add: axis_index_def get_indexer_def)
qed

lemma index_consistent_upd:
  "q_joinids s ax = Some ids \<Longrightarrow> index_consistent s
   \<Longrightarrow> index_consistent (s\<lparr>q_index := (q_index s)(ax := Some ids)\<rparr>)"
  by (cases ax) (auto simp: index_consistent_def)

lemma the_measurement_index_upd [simp]:
  "the_measurement (s\<lparr>q_index := f\<rparr>) = the_measurement s"
  by (simp add: the_measurement_def split: option.splits)

subsection \<open>Matrix names and column names\<close>

lemma check_X_names_good:
  "\<not> malformed_name Xc n \<Longrightarrow> \<not> not_sparse_name Xc n
   \<Longrightarrow> check_X_names Xc (n # ns) = check_X_names Xc ns"
  by (auto simp: malformed_name_def not_sparse_name_def split: pyobj.splits option.splits)

lemma check_X_names_prefix:
  "\<forall>k\<in>set pre. \<not> malformed_name Xc k \<and> \<not> not_sparse_name Xc k
   \<Longrightarrow> check_X_names Xc (pre @ ns) = check_X_names Xc ns"
  by (induction pre) (simp_all add: check_X_names_good del: check_X_names.simps)

lemma check_X_names_malformed:
  "malformed_name Xc n \<Longrightarrow> \<exists>msg. check_X_names Xc (n # ns) = Some (ValueError msg)"
  by (auto simp: malformed_name_def split: pyobj.splits option.splits)

lemma check_X_names_not_sparse:
  "not_sparse_name Xc n
   \<Longrightarrow> check_X_names Xc (n # ns) = Some (NotImplementedError ''Dense array unsupported'')"
  by (auto simp: not_sparse_name_def split: pyobj.splits option.splits)

lemma malformed_not_sparse: "malformed_name Xc n \<Longrightarrow> \<not> not_sparse_name Xc n"
  by (auto simp: malformed_name_def not_sparse_name_def split: pyobj.splits option.splits)

lemma check_X_names_first_bad:
  assumes "names = pre @ n # post"
    and "\<forall>k\<in>set pre. \<not> malformed_name Xc k \<and> \<not> not_sparse_name Xc k"
    and "malformed_name Xc n \<or> not_sparse_name Xc n"
  shows "\<exists>e. check_X_names Xc names = Some e
           \<and> exc_class e = (if malformed_name Xc n then ''ValueError''
                             else ''NotImplementedError'')"
proof (cases "malformed_name Xc n")
  case True
  then obtain msg where "check_X_names Xc (n # post) = Some (ValueError msg)"
    using check_X_names_malformed by blast
  with assms True show ?thesis by (simp add: check_X_names_prefix)
next
  case False
  with assms have "not_sparse_name Xc n" by simp
  then have "check_X_names Xc (n # post) = Some (NotImplementedError ''Dense array unsupported'')"
    by (rule check_X_names_not_sparse)
  with assms False show ?thesis by (simp add: check_X_names_prefix)
qed

lemma check_X_names_Cons_None:
  assumes "check_X_names Xc (n # ns) = None"
  shows "\<exists>arr. lookup_X Xc n = Inr arr \<and> soma_type arr = ''SOMASparseNDArray''
           \<and> check_X_names Xc ns = None"
  using assms by (auto simp: lookup_X_def split: pyobj.splits option.splits if_splits)

lemma query_X_bad_layer:
  assumes "the_measurement s = Inr m"
    and "malformed_name (ms_X m) (PyStr layer) \<or> not_sparse_name (ms_X m) (PyStr layer)"
  shows "\<exists>e. query_X layer prefetch s = (([], Some e), s)
           \<and> exc_class e = (if malformed_name (ms_X m) (PyStr layer) then ''ValueError''
                             else ''NotImplementedError'')"
  using assms
  by (auto simp: query_X_def malformed_name_def not_sparse_name_def split: option.splits)

lemma read_bad_names:
  assumes ms: "the_measurement s = Inr m"
    and names: "X_name # (case X_layers of None \<Rightarrow> [] | Some l \<Rightarrow> l) = pre @ n # post"
    and pre: "\<forall>k\<in>set pre. \<not> malformed_name (ms_X m) k \<and> \<not> not_sparse_name (ms_X m) k"
    and bad: "malformed_name (ms_X m) n \<or> not_sparse_name (ms_X m) n"
  shows "\<exists>e. read X_name use_position_indexing column_names X_layers s = (Inl e, s, column_names)
           \<and> exc_class e = (if malformed_name (ms_X m) n then ''ValueError''
                             else ''NotImplementedError'')"
proof -
  from check_X_names_first_bad [OF names pre bad]
  obtain e where e: "check_X_names (ms_X m) (X_name # (case X_layers of None \<Rightarrow> [] | Some l \<Rightarrow> l))
                       = Some e"
      "exc_class e = (if malformed_name (ms_X m) n then ''ValueError''
                      else ''NotImplementedError'')"
    by auto
  with ms have "read X_name use_position_indexing column_names X_layers s
                  = (Inl e, s, column_names)"
    by (simp add: read_def Let_def)
  with e(2) show ?thesis by (intro exI [of _ e]) simp
qed

lemma map_of_default_column_names:
  "map_of (default_column_names (Some d)) k =
     (if k = ''obs'' \<or> k = ''var'' then Some (axis_columns d k) else map_of d k)"
  by (auto simp: default_column_names_def Let_def axis_columns_def update_conv'
           split: option.splits)

lemma dict_get_default:
  "k = ''obs'' \<or> k = ''var''
   \<Longrightarrow> dict_get (default_column_names (Some d)) k = Inr (axis_columns d k)"
  by (simp add: dict_get_def map_of_default_column_names)

lemma dict_get_requested:
  "k = ''obs'' \<or> k = ''var''
   \<Longrightarrow> dict_get (default_column_names cno) k = Inr (requested_columns cno k)"
proof (cases cno)
  case None
  assume "k = ''obs'' \<or> k = ''var''"
  with None show ?thesis
    by (auto simp: dict_get_def default_column_names_def requested_columns_def)
next
  case (Some d)
  assume "k = ''obs'' \<or> k = ''var''"
  with Some show ?thesis by (simp add: dict_get_default requested_columns_def)
qed

lemma read_axes_cong:
  "dict_get cn ''obs'' = dict_get cm ''obs'' \<Longrightarrow> dict_get cn ''var'' = dict_get cm ''var''
   \<Longrightarrow> read_axes m cn s = read_axes m cm s"
  by (simp add: read_axes_def cong: sum.case_cong prod.case_cong)

lemma read_checked_cong:
  "dict_get cn ''obs'' = dict_get cm ''obs'' \<Longrightarrow> dict_get cn ''var'' = dict_get cm ''var''
   \<Longrightarrow> read_checked m X_name upi cn ls s = read_checked m X_name upi cm ls s"
  by (simp add: read_checked_def read_axes_cong [of cn cm])

lemma read_same_axis_columns:
  assumes "axis_columns dn ''obs'' = axis_columns d ''obs''"
    and "axis_columns dn ''var'' = axis_columns d ''var''"
  shows "fst (read X_name upi (Some dn) X_layers s) = fst (read X_name upi (Some d) X_layers s)
       \<and> fst (snd (read X_name upi (Some dn) X_layers s))
           = fst (snd (read X_name upi (Some d) X_layers s))"
proof -
  have "read_checked m X_name upi (default_column_names (Some dn)) ls s
          = read_checked m X_name upi (default_column_names (Some d)) ls s" for m ls
    by (rule read_checked_cong) (simp_all add: dict_get_default assms)
  then show ?thesis
    by (simp add: read_def Let_def split: sum.splits option.splits prod.splits)
qed

subsection \<open>A read of an empty selection\<close>

lemma rewrite_items_empty:
  assumes "q_joinids s Obs = Some obs_ids" and "q_joinids s Var = Some var_ids"
    and "the_measurement s = Inr m" and "index_consistent s"
    and "distinct obs_ids" and "distinct var_ids"
    and "list_all (\<lambda>t. no_rows t \<and> sparse_fields (map fst t)) (map snd items)"
    and "distinct (map fst acc @ map fst items)"
    and "list_all no_rows (map snd acc)"
  shows "\<exists>tabs t. rewrite_items items acc s = (Inr tabs, t)
           \<and> map fst tabs = map fst acc @ map fst items
           \<and> list_all no_rows (map snd tabs)
           \<and> q_trace t = q_trace s \<and> q_joinids t = q_joinids s"
  using assms
proof (induction items arbitrary: acc s)
  case Nil
  then show ?case by simp
next
  case (Cons item items)
  let ?s1 = "s\<lparr>q_index := (q_index s)(Obs := Some obs_ids)\<rparr>"
  let ?s2 = "?s1\<lparr>q_index := (q_index ?s1)(Var := Some var_ids)\<rparr>"
  let ?t = "[(''_dim_0'', []), (''_dim_1'', []), (''soma_data'', [])] :: 'a table"
  from Cons.prems(7) have it: "no_rows (snd item)" "sparse_fields (map fst (snd item))" by simp_all
  then have c0: "column (snd item) ''soma_dim_0'' = Inr []"
    and c1: "column (snd item) ''soma_dim_1'' = Inr []"
    and c2: "column (snd item) ''soma_data'' = Inr []"
    by (simp_all add: column_no_rows sparse_fields_def)
  have o: "obs_index [] s = (Inr [], ?s1)"
    using axis_index_cached [OF Cons.prems(1) Cons.prems(3) Cons.prems(4) Cons.prems(5), of "[]"]
    by (simp add: obs_index_def)
  have s1: "q_joinids ?s1 Var = Some var_ids" "the_measurement ?s1 = Inr m"
    "index_consistent ?s1"
    using Cons.prems(1-4) by (simp_all add: index_consistent_upd)
  have v: "var_index [] ?s1 = (Inr [], ?s2)"
    using axis_index_cached [OF s1(1) s1(2) s1(3) Cons.prems(6), of "[]"]
    by (simp add: var_index_def)
  have s2: "q_joinids ?s2 Obs = Some obs_ids" "q_joinids ?s2 Var = Some var_ids"
    "the_measurement ?s2 = Inr m" "index_consistent ?s2"
    using Cons.prems(1-3) s1(3) index_consistent_upd [of ?s1 Var var_ids] by simp_all
  have step: "rewrite_items (item # items) acc s
                = rewrite_items items (AList.update (fst item) ?t acc) ?s2"
    using c0 c1 c2 o v by (simp add: positional_table_def)
  have keys: "map fst (AList.update (fst item) ?t acc) = map fst acc @ [fst item]"
    using Cons.prems(8) by (simp add: update_keys)
  from Cons.prems(9) have vals: "list_all no_rows (map snd (AList.update (fst item) ?t acc))"
    by (rule update_vals) (simp add: no_rows_def)
  from Cons.prems(7) have rest: "list_all (\<lambda>t. no_rows t \<and> sparse_fields (map fst t))
                                   (map snd items)"
    by simp
  from Cons.prems(8) keys have d: "distinct (map fst (AList.update (fst item) ?t acc) @ map fst items)"
    by simp
  from Cons.IH [OF s2 Cons.prems(5) Cons.prems(6) rest d vals] step keys
  show ?case by auto
qed

lemma read_X_tables_empty:
  assumes "q_joinids s Obs = Some obs_ids" and "q_joinids s Var = Some var_ids"
    and "obs_ids = [] \<or> var_ids = []"
    and "check_X_names Xc names = None"
    and "\<forall>n\<in>set names. \<forall>arr. lookup_X Xc n = Inr arr \<longrightarrow> Q (schema arr)"
    and "distinct (map fst acc @ names)"
    and "list_all (\<lambda>t. no_rows t \<and> Q (map fst t)) (map snd acc)"
  shows "\<exists>tabs. read_X_tables Xc names acc s = (Inr tabs, s)
           \<and> map fst tabs = map fst acc @ names
           \<and> list_all (\<lambda>t. no_rows t \<and> Q (map fst t)) (map snd tabs)"
  using assms(4-7)
proof (induction names arbitrary: acc)
  case Nil
  then show ?case by simp
next
  case (Cons n ns)
  from check_X_names_Cons_None [OF Cons.prems(1)]
  obtain arr where arr: "lookup_X Xc n = Inr arr" "check_X_names Xc ns = None" by blast
  let ?t = "from_pylist_empty (schema arr) :: 'a table"
  have f: "fetchX arr True s = (([?t], None), s)"
    using assms(1-3) by (rule fetchX_empty)
  have step: "read_X_tables Xc (n # ns) acc s = read_X_tables Xc ns (AList.update n ?t acc) s"
    using arr f by simp
  have keys: "map fst (AList.update n ?t acc) = map fst acc @ [n]"
    using Cons.prems(3) by (simp add: update_keys)
  from Cons.prems(2) arr have "Q (schema arr)" by simp
  with Cons.prems(4)
  have vals: "list_all (\<lambda>t. no_rows t \<and> Q (map fst t)) (map snd (AList.update n ?t acc))"
    by (intro update_vals) simp_all
  from Cons.prems(2) have q: "\<forall>k\<in>set ns. \<forall>arr. lookup_X Xc k = Inr arr \<longrightarrow> Q (schema arr)"
    by simp
  from Cons.prems(3) keys have d: "distinct (map fst (AList.update n ?t acc) @ ns)" by simp
  from Cons.IH [OF arr(2) q d vals] step keys show ?case by auto
qed

lemma make_result_empty:
  assumes keys: "map fst tabs = X_name # layers" and d: "distinct (X_name # layers)"
    and nr: "list_all no_rows (map snd tabs)"
  shows "\<exists>res. make_result X_name layers obs_table var_table tabs = Inr res
           \<and> r_obs res = obs_table \<and> r_var res = var_table \<and> num_rows (r_X res) = 0
           \<and> (case r_X_layers res of
                 None \<Rightarrow> layers = []
               | Some ls \<Rightarrow> map fst ls = layers \<and> list_all (\<lambda>p. num_rows (snd p) = 0) ls)"
proof -
  from keys obtain x rest where t: "tabs = (X_name, x) # rest" "map fst rest = layers"
    by (cases tabs) auto
  with d have "X_name \<notin> fst ` set rest" by (metis distinct.simps(2) set_map)
  then have del: "AList.delete X_name tabs = rest" by (simp add: t(1))
  from nr t have x: "num_rows x = 0" and r: "list_all (\<lambda>p. num_rows (snd p) = 0) rest"
    by (auto simp: list_all_iff no_rows_num_rows)
  from t del x r show ?thesis
    by (cases layers) (auto simp: make_result_def Let_def simp del: AList.delete_simps)
qed

lemma read_axes_ok:
  assumes pool: "\<not> q_pool_shutdown s"
    and ro: "read_axis_dataframe Obs (exp_obs (q_experiment s))
               (requested_columns cno ''obs'') s = (Inr obs_table, t1)"
    and rv: "read_axis_dataframe Var (ms_var m) (requested_columns cno ''var'') t1
               = (Inr var_table, t2)"
  shows "read_axes m (default_column_names cno) s = (Inr (obs_table, var_table), t2)"
proof -
  from ro have "same_pool s t1" by (rule read_axis_dataframe_same_pool)
  with pool have "\<not> q_pool_shutdown t1" by (simp add: same_pool_def)
  with pool ro rv show ?thesis
    by (simp add: read_axes_def submit_def dict_get_requested)
qed

lemma read_empty:
  assumes ms: "the_measurement s = Inr m"
    and pool: "\<not> q_pool_shutdown s"
    and names: "check_X_names (ms_X m) (X_name # (case X_layers of None \<Rightarrow> [] | Some l \<Rightarrow> l)) = None"
      "distinct (X_name # (case X_layers of None \<Rightarrow> [] | Some l \<Rightarrow> l))"
    and ro: "read_axis_dataframe Obs (exp_obs (q_experiment s))
               (requested_columns column_names ''obs'') s = (Inr obs_table, t1)"
    and rv: "read_axis_dataframe Var (ms_var m) (requested_columns column_names ''var'') t1
               = (Inr var_table, t2)"
    and ids: "q_joinids t2 Obs = Some obs_ids" "q_joinids t2 Var = Some var_ids"
    and empty: "obs_ids = [] \<or> var_ids = []"
    and pos: "upi \<longrightarrow> index_consistent s \<and> distinct obs_ids \<and> distinct var_ids
                \<and> (\<forall>n\<in>set (X_name # (case X_layers of None \<Rightarrow> [] | Some l \<Rightarrow> l)).
                     \<forall>arr. lookup_X (ms_X m) n = Inr arr \<longrightarrow> sparse_fields (schema arr))"
  shows "\<exists>res t c. read X_name upi column_names X_layers s = (Inr res, t, c)
           \<and> r_obs res = obs_table \<and> r_var res = var_table \<and> num_rows (r_X res) = 0
           \<and> (case r_X_layers res of
                 None \<Rightarrow> (case X_layers of None \<Rightarrow> [] | Some l \<Rightarrow> l) = []
               | Some ls \<Rightarrow> map fst ls = (case X_layers of None \<Rightarrow> [] | Some l \<Rightarrow> l)
                          \<and> list_all (\<lambda>p. num_rows (snd p) = 0) ls)
           \<and> q_trace t = q_trace t2"
proof -
  let ?layers = "case X_layers of None \<Rightarrow> [] | Some l \<Rightarrow> l"
  let ?cn = "default_column_names column_names"
  let ?Q = "\<lambda>sch. upi \<longrightarrow> sparse_fields sch"
  have ax: "read_axes m ?cn s = (Inr (obs_table, var_table), t2)"
    using pool ro rv by (rule read_axes_ok)
  then have sp: "same_pool s t2" by (rule read_axes_same_pool)
  from pos have q: "\<forall>n\<in>set (X_name # ?layers). \<forall>arr. lookup_X (ms_X m) n = Inr arr
                      \<longrightarrow> ?Q (schema arr)"
    by blast
  from read_X_tables_empty [OF ids empty names(1) q, of "[]"] names(2)
  obtain tabs where tabs: "read_X_tables (ms_X m) (X_name # ?layers) [] t2 = (Inr tabs, t2)"
      "map fst tabs = X_name # ?layers"
      "list_all (\<lambda>t. no_rows t \<and> ?Q (map fst t)) (map snd tabs)"
    by auto
  have "\<exists>tabs1 t3. (if upi then rewrite_X_for_positional_indexing tabs t2 else (Inr tabs, t2))
                     = (Inr tabs1, t3)
          \<and> map fst tabs1 = X_name # ?layers \<and> list_all no_rows (map snd tabs1)
          \<and> q_trace t3 = q_trace t2"
  proof (cases upi)
    case False
    with tabs show ?thesis by (auto simp: list_all_iff)
  next
    case True
    from sp ms evolves_measurement [of s t2] have m2: "the_measurement t2 = Inr m"
      by (simp add: same_pool_def)
    from sp pos True have ic: "index_consistent t2" by (simp add: same_pool_def evolves_def)
    from tabs(3) True have it: "list_all (\<lambda>t. no_rows t \<and> sparse_fields (map fst t)) (map snd tabs)"
      by (simp add: list_all_iff)
    from names(2) tabs(2) have d: "distinct (map fst [] @ map fst tabs)" by simp
    from rewrite_items_empty [OF ids m2 ic _ _ it d] pos True tabs(2)
    show ?thesis by (auto simp: rewrite_X_for_positional_indexing_def)
  qed
  then obtain tabs1 t3 where
    rw: "(if upi then rewrite_X_for_positional_indexing tabs t2 else (Inr tabs, t2))
           = (Inr tabs1, t3)"
    and k1: "map fst tabs1 = X_name # ?layers" and n1: "list_all no_rows (map snd tabs1)"
    and tr: "q_trace t3 = q_trace t2"
    by (elim exE conjE)
  from make_result_empty [OF k1 names(2) n1, of obs_table var_table]
  obtain res where res: "make_result X_name ?layers obs_table var_table tabs1 = Inr res"
      "r_obs res = obs_table" "r_var res = var_table" "num_rows (r_X res) = 0"
      "case r_X_layers res of None \<Rightarrow> ?layers = []
         | Some ls \<Rightarrow> map fst ls = ?layers \<and> list_all (\<lambda>p. num_rows (snd p) = 0) ls"
    by blast
  have "read_checked m X_name upi ?cn ?layers s = (Inr res, t3)"
    using ax tabs(1) rw res(1)
    by (simp add: read_checked_def del: read_X_tables.simps split: if_splits)
  with ms names(1)
  have "read X_name upi column_names X_layers s
          = (Inr res, t3, case column_names of None \<Rightarrow> None | Some d \<Rightarrow> Some ?cn)"
    by (simp add: read_def Let_def)
  then show ?thesis using res tr by blast
qed

subsection \<open>The example queries\<close>

lemma ex_query_eq:
  "ex_query = \<lparr>q_experiment = ex_experiment, q_ms = ''RNA'',
       q_query = (\<lambda>ax. default_axis_query), q_joinids = (\<lambda>ax. None),
       q_index = (\<lambda>ax. None), q_pool_shutdown = False, q_trace = []\<rparr>"
  by (auto simp: ex_query_def ExperimentQuery_init_def ex_experiment_def fun_eq_iff
           split: axis.splits)

lemma ex_measurement_of_query: "the_measurement ex_query = Inr ex_measurement"
  by (simp add: ex_query_def ExperimentQuery_init_def ex_experiment_def the_measurement_def)

lemma ex_query_consistent: "index_consistent ex_query"
  by (simp add: index_consistent_def ex_query_def ExperimentQuery_init_def ex_experiment_def)

lemma ex_empty_query_eq:
  "ex_empty_query = \<lparr>q_experiment = ex_experiment\<lparr>exp_obs := ex_dataframe
          [(''soma_joinid'', []), (''cell_type'', []), (''tissue'', [])]\<rparr>, q_ms = ''RNA'',
       q_query = (\<lambda>ax. default_axis_query), q_joinids = (\<lambda>ax. None),
       q_index = (\<lambda>ax. None), q_pool_shutdown = False, q_trace = []\<rparr>"
  by (auto simp: ex_empty_query_def ExperimentQuery_init_def ex_experiment_def fun_eq_iff
           split: axis.splits)

section \<open>The claims\<close>

text \<open>
  C1. A query whose obs or var identifiers are empty, its pool running and its measurement
  in the experiment. As amended: the matrix read yields exactly one chunk, the table with
  the matrix's schema and no rows that \<^verbatim>\<open>pa.Table.from_pylist([], schema=X.schema)\<close>
  builds, and does not raise; the full read succeeds with matrix tables that have no
  rows. In the order of the conjuncts:
  \<^item> \<^verbatim>\<open>_fetchX\<close>, both caches set: one chunk, no exception, the query unchanged;
  \<^item> \<^verbatim>\<open>X\<close>, for a sparse layer of the measurement, when both axes' identifiers resolve:
    the same one chunk, and the state the two resolutions leave;
  \<^item> that chunk has no rows;
  \<^item> \<^verbatim>\<open>read\<close>, for matrix names that pass its checks and are pairwise distinct, when
    both axis reads succeed: a result with the two axis tables, a primary matrix table
    and one table per extra layer, each with no rows, and no matrix read in the trace.
    With \<^verbatim>\<open>use_position_indexing\<close> the rewrite needs the identifiers of each axis to be
    distinct (pandas refuses an index with repeats), the indexer consistent with the
    caches and the three sparse columns in each matrix's schema.
\<close>

theorem empty_selection_yields_one_empty_chunk:
  assumes ms: "the_measurement s = Inr m"
    and pool: "\<not> q_pool_shutdown s"
    and empty: "obs_ids = [] \<or> var_ids = []"
  shows "(q_joinids s Obs = Some obs_ids \<and> q_joinids s Var = Some var_ids
            \<longrightarrow> fetchX X prefetch s = (([from_pylist_empty (schema X)], None), s))
       \<and> (layer \<noteq> [] \<and> ms_X m layer = Some X \<and> soma_type X = ''SOMASparseNDArray''
            \<and> joinids_of Obs s = (Inr (Some obs_ids), s1)
            \<and> joinids_of Var s1 = (Inr (Some var_ids), s2)
            \<longrightarrow> query_X layer prefetch s = (([from_pylist_empty (schema X)], None), s2))
       \<and> num_rows (from_pylist_empty (schema X) :: 'd table) = 0
       \<and> (check_X_names (ms_X m) (X_name # (case X_layers of None \<Rightarrow> [] | Some l \<Rightarrow> l)) = None
            \<and> distinct (X_name # (case X_layers of None \<Rightarrow> [] | Some l \<Rightarrow> l))
            \<and> read_axis_dataframe Obs (exp_obs (q_experiment s))
                 (requested_columns column_names ''obs'') s = (Inr obs_table, t1)
            \<and> read_axis_dataframe Var (ms_var m)
                 (requested_columns column_names ''var'') t1 = (Inr var_table, t2)
            \<and> q_joinids t2 Obs = Some obs_ids \<and> q_joinids t2 Var = Some var_ids
            \<and> (use_position_indexing \<longrightarrow>
                  index_consistent s \<and> distinct obs_ids \<and> distinct var_ids
                \<and> (\<forall>n\<in>set (X_name # (case X_layers of None \<Rightarrow> [] | Some l \<Rightarrow> l)).
                     \<forall>arr. lookup_X (ms_X m) n = Inr arr \<longrightarrow> sparse_fields (schema arr)))
            \<longrightarrow> (\<exists>res t c.
                   read X_name use_position_indexing column_names X_layers s = (Inr res, t, c)
                 \<and> r_obs res = obs_table \<and> r_var res = var_table \<and> num_rows (r_X res) = 0
                 \<and> (case r_X_layers res of
                       None \<Rightarrow> (case X_layers of None \<Rightarrow> [] | Some l \<Rightarrow> l) = []
                     | Some ls \<Rightarrow>
                         map fst ls = (case X_layers of None \<Rightarrow> [] | Some l \<Rightarrow> l)
                       \<and> list_all (\<lambda>p. num_rows (snd p) = 0) ls)
                 \<and> q_trace t = q_trace t2))"
proof (intro conjI impI)
  assume "q_joinids s Obs = Some obs_ids \<and> q_joinids s Var = Some var_ids"
  with empty show "fetchX X prefetch s = (([from_pylist_empty (schema X)], None), s)"
    by (simp add: fetchX_empty)
next
  assume a: "layer \<noteq> [] \<and> ms_X m layer = Some X \<and> soma_type X = ''SOMASparseNDArray''
            \<and> joinids_of Obs s = (Inr (Some obs_ids), s1)
            \<and> joinids_of Var s1 = (Inr (Some var_ids), s2)"
  with ms pool empty
  show "query_X layer prefetch s = (([from_pylist_empty (schema X)], None), s2)"
    by (intro query_X_empty [where m = m and ?s1.0 = s1 and obs_ids = obs_ids
                               and var_ids = var_ids]) simp_all
next
  show "num_rows (from_pylist_empty (schema X) :: 'd table) = 0" by simp
next
  assume a: "check_X_names (ms_X m) (X_name # (case X_layers of None \<Rightarrow> [] | Some l \<Rightarrow> l)) = None
            \<and> distinct (X_name # (case X_layers of None \<Rightarrow> [] | Some l \<Rightarrow> l))
            \<and> read_axis_dataframe Obs (exp_obs (q_experiment s))
                 (requested_columns column_names ''obs'') s = (Inr obs_table, t1)
            \<and> read_axis_dataframe Var (ms_var m)
                 (requested_columns column_names ''var'') t1 = (Inr var_table, t2)
            \<and> q_joinids t2 Obs = Some obs_ids \<and> q_joinids t2 Var = Some var_ids
            \<and> (use_position_indexing \<longrightarrow>
                  index_consistent s \<and> distinct obs_ids \<and> distinct var_ids
                \<and> (\<forall>n\<in>set (X_name # (case X_layers of None \<Rightarrow> [] | Some l \<Rightarrow> l)).
                     \<forall>arr. lookup_X (ms_X m) n = Inr arr \<longrightarrow> sparse_fields (schema arr)))"
  show "\<exists>res t c.
           read X_name use_position_indexing column_names X_layers s = (Inr res, t, c)
         \<and> r_obs res = obs_table \<and> r_var res = var_table \<and> num_rows (r_X res) = 0
         \<and> (case r_X_layers res of
               None \<Rightarrow> (case X_layers of None \<Rightarrow> [] | Some l \<Rightarrow> l) = []
             | Some ls \<Rightarrow>
                 map fst ls = (case X_layers of None \<Rightarrow> [] | Some l \<Rightarrow> l)
               \<and> list_all (\<lambda>p. num_rows (snd p) = 0) ls)
         \<and> q_trace t = q_trace t2"
    using a by (elim conjE) (rule read_empty [OF ms pool _ _ _ _ _ _ empty], assumption+)
qed

text \<open>
  On the query whose obs storage holds no row: \<^verbatim>\<open>X("raw", prefetch=True)\<close> yields the
  one empty chunk and \<^verbatim>\<open>read("raw", use_position_indexing=True)\<close> succeeds with an
  empty matrix table.
\<close>

theorem empty_selection_yields_one_empty_chunk_witness:
  "fst (query_X ''raw'' True ex_empty_query)
     = ([[(''soma_dim_0'', []), (''soma_dim_1'', []), (''soma_data'', [])]], None)
   \<and> num_rows (r_X (projr (fst (read (PyStr ''raw'') True None None ex_empty_query)))) = 0
   \<and> isl (fst (read (PyStr ''raw'') True None None ex_empty_query)) = False"
proof -
  let ?s = ex_empty_query
  let ?t1 = "snd (read_axis_dataframe Obs (exp_obs (q_experiment ?s))
                    (requested_columns None ''obs'') ?s)"
  let ?t2 = "snd (read_axis_dataframe Var (ms_var ex_measurement)
                    (requested_columns None ''var'') ?t1)"
  let ?ot = "[(''soma_joinid'', []), (''cell_type'', []), (''tissue'', [])] :: string table"
  have ms: "the_measurement ?s = Inr ex_measurement"
    by (simp add: ex_empty_query_eq the_measurement_def ex_experiment_def)
  have pool: "\<not> q_pool_shutdown ?s" by (simp add: ex_empty_query_eq)
  have empty: "([] :: string column) = [] \<or> [Int64 1, Int64 2] = ([] :: string column)" by simp
  have "fst (joinids_of Obs ?s) = Inr (Some [])" by code_simp
  then have jo: "joinids_of Obs ?s = (Inr (Some []), snd (joinids_of Obs ?s))"
    by (metis prod.collapse)
  have "fst (joinids_of Var (snd (joinids_of Obs ?s))) = Inr (Some [Int64 1, Int64 2])"
    by code_simp
  then have jv: "joinids_of Var (snd (joinids_of Obs ?s))
                   = (Inr (Some [Int64 1, Int64 2]), snd (joinids_of Var (snd (joinids_of Obs ?s))))"
    by (metis prod.collapse)
  have layer: "''raw'' \<noteq> []" "ms_X ex_measurement ''raw'' = Some ex_raw"
    "soma_type ex_raw = ''SOMASparseNDArray''"
    by (simp_all add: ex_measurement_def ex_raw_def)
  have names: "check_X_names (ms_X ex_measurement)
                 (PyStr ''raw'' # (case None of None \<Rightarrow> [] | Some l \<Rightarrow> l)) = None"
    "distinct (PyStr ''raw'' # (case None of None \<Rightarrow> [] | Some l \<Rightarrow> l))"
    by (simp_all add: ex_measurement_def ex_raw_def)
  have "fst (read_axis_dataframe Obs (exp_obs (q_experiment ?s))
               (requested_columns None ''obs'') ?s) = Inr ?ot"
    by code_simp
  then have ro: "read_axis_dataframe Obs (exp_obs (q_experiment ?s))
                   (requested_columns None ''obs'') ?s = (Inr ?ot, ?t1)"
    by (metis prod.collapse)
  have "fst (read_axis_dataframe Var (ms_var ex_measurement)
               (requested_columns None ''var'') ?t1) = Inr ex_var_table"
    by code_simp
  then have rv: "read_axis_dataframe Var (ms_var ex_measurement)
                   (requested_columns None ''var'') ?t1 = (Inr ex_var_table, ?t2)"
    by (metis prod.collapse)
  have ids: "q_joinids ?t2 Obs = Some []" "q_joinids ?t2 Var = Some [Int64 1, Int64 2]"
    by code_simp+
  have pos: "index_consistent ?s \<and> distinct ([] :: string column)
             \<and> distinct [Int64 1, Int64 2 :: string cell]
             \<and> (\<forall>n\<in>set (PyStr ''raw'' # (case None of None \<Rightarrow> [] | Some l \<Rightarrow> l)).
                  \<forall>arr. lookup_X (ms_X ex_measurement) n = Inr arr
                    \<longrightarrow> sparse_fields (schema arr))"
    by (simp add: index_consistent_def ex_empty_query_eq lookup_X_def ex_measurement_def
          ex_raw_def sparse_fields_def)
  note inst = empty_selection_yields_one_empty_chunk [OF ms pool empty,
      where X = ex_raw and layer = "''raw''" and prefetch = True
        and X_name = "PyStr ''raw''" and X_layers = None and column_names = None
        and use_position_indexing = True and obs_table = ?ot and var_table = ex_var_table
        and ?t1.0 = ?t1 and ?t2.0 = ?t2
        and ?s1.0 = "snd (joinids_of Obs ?s)"
        and ?s2.0 = "snd (joinids_of Var (snd (joinids_of Obs ?s)))"]
  from inst layer jo jv
  have x: "query_X ''raw'' True ?s
             = (([from_pylist_empty (schema ex_raw)], None),
                snd (joinids_of Var (snd (joinids_of Obs ?s))))"
    by blast
  from inst names ro rv ids pos
  obtain res t c where r: "read (PyStr ''raw'') True None None ?s = (Inr res, t, c)"
    "num_rows (r_X res) = 0"
    by blast
  from x r show ?thesis by (simp add: from_pylist_empty_def ex_raw_def)
qed

text \<open>
  As the claim is written the matrix read yields zero chunks. On that query the obs
  identifiers are empty, and \<^verbatim>\<open>X\<close> and \<^verbatim>\<open>_fetchX\<close> each yield one chunk.
\<close>

theorem empty_selection_yields_a_chunk_counterexample:
  "fst (obs_joinids ex_empty_query) = Inr (Some [])
   \<and> fst (query_X ''raw'' False ex_empty_query)
       = ([[(''soma_dim_0'', []), (''soma_dim_1'', []), (''soma_data'', [])]], None)
   \<and> length (fst (fst (query_X ''raw'' False ex_empty_query))) = 1
   \<and> length (fst (fst (fetchX ex_raw False (snd (query_X ''raw'' False ex_empty_query))))) = 1"
  by code_simp

text \<open>
  C2. The statement \<^verbatim>\<open>with experiment_query(...) as query: body\<close> on the example
  experiment. With a body that asks \<^verbatim>\<open>read\<close> for a matrix that does not exist, the
  \<^verbatim>\<open>ValueError\<close> leaves the statement, the query's trace holds no shutdown and its pool
  is still running: \<^verbatim>\<open>close\<close> was not called. With a body that reads and returns,
  \<^verbatim>\<open>close\<close> is called once and the pool is shut down. The claim, and the docstring of
  \<^verbatim>\<open>experiment_query\<close>, promise the call on every exit path; the \<^verbatim>\<open>yield\<close> has no
  \<^verbatim>\<open>try\<close> ... \<^verbatim>\<open>finally\<close> around it, so the exceptional path misses it.
\<close>

theorem experiment_query_skips_close_when_body_raises:
  "fst (with_experiment_query ex_experiment ''RNA'' None None ex_failing_body)
     = Inl (ValueError ''Unknown X layer name'')
   \<and> map_option close_calls
       (snd (with_experiment_query ex_experiment ''RNA'' None None ex_failing_body)) = Some 0
   \<and> map_option q_pool_shutdown
       (snd (with_experiment_query ex_experiment ''RNA'' None None ex_failing_body)) = Some False
   \<and> map_option close_calls
       (snd (with_experiment_query ex_experiment ''RNA'' None None ex_reading_body)) = Some 1
   \<and> map_option q_pool_shutdown
       (snd (with_experiment_query ex_experiment ''RNA'' None None ex_reading_body)) = Some True"
  by code_simp

text \<open>
  C3. \<^verbatim>\<open>read("raw", use_position_indexing=True)\<close> on the example query, all columns
  asked for. The matrix table is rewritten as the claim says: the identifier columns of
  the cells (10, 1, 5.0) and (20, 2, 7.0) become the positions (0, 0) and (1, 1) of those
  identifiers in the cached obs and var identifiers, under the names \<^verbatim>\<open>_dim_0\<close> and
  \<^verbatim>\<open>_dim_1\<close>. The obs and var tables of the result still hold their \<^verbatim>\<open>soma_joinid\<close>
  column, which the claim, and the docstring of \<^verbatim>\<open>_rewrite_X_for_positional_indexing\<close>,
  say is dropped: \<^verbatim>\<open>read\<close> returns the axis tables as they were read.
\<close>

theorem read_positional_keeps_joinid_column:
  "fst (read (PyStr ''raw'') True None None ex_query)
     = Inr \<lparr>r_obs = [(''soma_joinid'', [Int64 10, Int64 20, Int64 30]),
                     (''cell_type'', [Data ''T'', Data ''B'', Data ''T'']),
                     (''tissue'', [Data ''lung'', Data ''lung'', Data ''skin''])],
             r_var = [(''soma_joinid'', [Int64 1, Int64 2]),
                     (''feature_name'', [Data ''Gm53058'', Data ''Rik''])],
             r_X = [(''_dim_0'', [Int64 0, Int64 1]), (''_dim_1'', [Int64 0, Int64 1]),
                    (''soma_data'', [Data ''5.0'', Data ''7.0''])],
             r_X_layers = None\<rparr>"
  by code_simp

text \<open>
  C4. \<^verbatim>\<open>obs_index\<close> and \<^verbatim>\<open>var_index\<close> (\<open>ax\<close> picks one), on a query whose identifiers
  of that axis resolve to the distinct sequence \<open>ids\<close> (cached, or read now) and whose
  indexer is consistent with the caches. For every coordinate array the call returns,
  without raising, an array of the same length in which position \<open>k\<close> holds \<open>i\<close> when
  the \<open>k\<close>-th coordinate is the \<open>i\<close>-th cached identifier and -1 when it is not among
  them, so that equal coordinates get equal positions; the cached sequence itself maps
  to 0, 1, ..., n - 1. The positions are those of the spec's lookup (\<open>get_indexer\<close>).
\<close>

theorem indexer_positions:
  assumes j: "joinids_of ax s = (Inr (Some ids), s1)"
    and ic: "index_consistent s"
    and d: "distinct ids"
  shows "(\<exists>res s2.
            (case ax of Obs \<Rightarrow> obs_index | Var \<Rightarrow> var_index) crds s = (Inr res, s2)
          \<and> length res = length crds
          \<and> (\<forall>k<length crds. \<forall>i<length ids. crds ! k = ids ! i \<longrightarrow> res ! k = int i)
          \<and> (\<forall>k<length crds. crds ! k \<notin> set ids \<longrightarrow> res ! k = - 1)
          \<and> (\<forall>k<length crds. \<forall>l<length crds. crds ! k = crds ! l \<longrightarrow> res ! k = res ! l))
       \<and> (\<exists>s3. (case ax of Obs \<Rightarrow> obs_index | Var \<Rightarrow> var_index) ids s
                  = (Inr (map int [0..<length ids]), s3))"
proof -
  have eq: "(case ax of Obs \<Rightarrow> obs_index | Var \<Rightarrow> var_index) = axis_index ax"
    by (cases ax) (simp_all add: obs_index_def var_index_def fun_eq_iff)
  from axis_index_result [OF j ic d]
  obtain s2 where a: "axis_index ax crds s = (Inr (map (position_of ids) crds), s2)" by blast
  from axis_index_result [OF j ic d]
  obtain s3 where b: "axis_index ax ids s = (Inr (map (position_of ids) ids), s3)" by blast
  have "\<forall>k<length crds. \<forall>i<length ids. crds ! k = ids ! i
          \<longrightarrow> map (position_of ids) crds ! k = int i"
    using d by (simp add: position_of_nth)
  moreover have "\<forall>k<length crds. crds ! k \<notin> set ids \<longrightarrow> map (position_of ids) crds ! k = - 1"
    by (simp add: position_of_absent)
  moreover have "\<forall>k<length crds. \<forall>l<length crds. crds ! k = crds ! l
          \<longrightarrow> map (position_of ids) crds ! k = map (position_of ids) crds ! l"
    by simp
  ultimately have "\<exists>res s2.
            axis_index ax crds s = (Inr res, s2)
          \<and> length res = length crds
          \<and> (\<forall>k<length crds. \<forall>i<length ids. crds ! k = ids ! i \<longrightarrow> res ! k = int i)
          \<and> (\<forall>k<length crds. crds ! k \<notin> set ids \<longrightarrow> res ! k = - 1)
          \<and> (\<forall>k<length crds. \<forall>l<length crds. crds ! k = crds ! l \<longrightarrow> res ! k = res ! l)"
    using a by (intro exI [of _ "map (position_of ids) crds"] exI [of _ s2]) simp
  moreover from b d have "\<exists>s3. axis_index ax ids s = (Inr (map int [0..<length ids]), s3)"
    by (simp add: map_position_of_self)
  ultimately show ?thesis unfolding eq by (rule conjI)
qed

text \<open>
  On the example query, obs identifiers 10, 20, 30 and var identifiers 1, 2.
\<close>

theorem indexer_positions_witness:
  "fst (obs_index [Int64 10, Int64 20, Int64 30] ex_query) = Inr [0, 1, 2]
   \<and> fst (obs_index [Int64 30, Int64 99, Int64 10, Int64 30] ex_query) = Inr [2, - 1, 0, 2]
   \<and> fst (var_index [Int64 2, Int64 2, Int64 5] ex_query) = Inr [1, 1, - 1]"
proof -
  have "fst (joinids_of Obs ex_query) = Inr (Some [Int64 10, Int64 20, Int64 30])"
    by code_simp
  then have j: "joinids_of Obs ex_query
                  = (Inr (Some [Int64 10, Int64 20, Int64 30]), snd (joinids_of Obs ex_query))"
    by (metis prod.collapse)
  have d: "distinct [Int64 10, Int64 20, Int64 (30::int)]"
    by simp
  from indexer_positions [OF j ex_query_consistent d, where crds = "[]", THEN conjunct2]
  obtain s3 where "(case Obs of Obs \<Rightarrow> obs_index | Var \<Rightarrow> var_index)
                     [Int64 10, Int64 20, Int64 30] ex_query
                   = (Inr (map int [0..<length [Int64 10, Int64 20, Int64 (30::int)]]), s3)"
    by auto
  then have a: "fst (obs_index [Int64 10, Int64 20, Int64 30] ex_query) = Inr [0, 1, 2]"
    by (simp add: upt_rec)
  have b: "fst (obs_index [Int64 30, Int64 99, Int64 10, Int64 30] ex_query)
             = Inr [2, - 1, 0, 2]"
    by code_simp
  have c: "fst (var_index [Int64 2, Int64 2, Int64 5] ex_query) = Inr [1, 1, - 1]"
    by code_simp
  from a b c show ?thesis by simp
qed

text \<open>
  C5. An axis read (\<^verbatim>\<open>_read_axis_dataframe\<close>) issued while the axis's identifier cache is
  unset, with a column list that leaves \<^verbatim>\<open>soma_joinid\<close> out: the physical read asks for
  \<^verbatim>\<open>soma_joinid\<close> followed by the caller's columns (the one event added to the trace);
  the cache is set to the identifier column of the table storage returned; the table
  returned to the caller has exactly the caller's columns, in the caller's order, and no
  identifier column. Storage is any function; the hypotheses say that this read succeeds
  and that each column asked for is a field of the table it returns.
\<close>

theorem read_axis_dataframe_injects_joinid:
  assumes unset: "q_joinids s ax = None"
    and notreq: "''soma_joinid'' \<notin> set cols"
    and rd: "axis_df (coords (q_query s ax)) (value_filter (q_query s ax))
               (Some (''soma_joinid'' # cols)) = Inr tbl"
    and fields: "\<forall>n\<in>set (''soma_joinid'' # cols). length (filter (\<lambda>f. fst f = n) tbl) = 1"
  shows "\<exists>ids out.
           column tbl ''soma_joinid'' = Inr ids \<and> select tbl cols = Inr out
         \<and> map fst out = cols \<and> ''soma_joinid'' \<notin> set (map fst out)
         \<and> read_axis_dataframe ax axis_df (Some cols) s =
             (Inr out, s\<lparr>q_joinids := (q_joinids s)(ax := Some ids),
                         q_trace := q_trace s @ [AxisRead ax (Some (''soma_joinid'' # cols))]\<rparr>)"
proof -
  from fields obtain ids where ids: "column tbl ''soma_joinid'' = Inr ids"
    using column_unique by fastforce
  from fields have "\<forall>n\<in>set cols. length (filter (\<lambda>f. fst f = n) tbl) = 1" by simp
  then obtain out where out: "select tbl cols = Inr out" "map fst out = cols"
    using select_unique by blast
  have names: "''soma_joinid'' \<notin> set (map fst out)"
    using out notreq by simp
  have "read_axis_dataframe ax axis_df (Some cols) s =
          (Inr out, s\<lparr>q_joinids := (q_joinids s)(ax := Some ids),
                      q_trace := q_trace s @ [AxisRead ax (Some (''soma_joinid'' # cols))]\<rparr>)"
    using unset notreq rd ids out
    by (simp add: read_axis_dataframe_def query_columns_for_def log_event_def Let_def)
  with ids out names show ?thesis by blast
qed

text \<open>
  On the example query: \<^verbatim>\<open>obs(column_names=["cell_type"])\<close> reads \<^verbatim>\<open>soma_joinid\<close> and
  \<^verbatim>\<open>cell_type\<close>, caches 10, 20, 30 and returns the \<^verbatim>\<open>cell_type\<close> column alone.
\<close>

theorem read_axis_dataframe_injects_joinid_witness:
  "fst (read_axis_dataframe Obs (exp_obs ex_experiment) (Some [''cell_type'']) ex_query)
     = Inr [(''cell_type'', [Data ''T'', Data ''B'', Data ''T''])]
   \<and> q_joinids (snd (read_axis_dataframe Obs (exp_obs ex_experiment) (Some [''cell_type''])
         ex_query)) Obs = Some [Int64 10, Int64 20, Int64 30]
   \<and> q_trace (snd (read_axis_dataframe Obs (exp_obs ex_experiment) (Some [''cell_type''])
         ex_query)) = [AxisRead Obs (Some [''soma_joinid'', ''cell_type''])]"
proof -
  let ?tbl = "[(''soma_joinid'', [Int64 10, Int64 20, Int64 30]),
               (''cell_type'', [Data ''T'', Data ''B'', Data ''T''])] :: string table"
  have h1: "q_joinids ex_query Obs = None" by (simp add: ex_query_eq)
  have h2: "''soma_joinid'' \<notin> set [''cell_type'']" by simp
  have h3: "exp_obs ex_experiment (coords (q_query ex_query Obs))
              (value_filter (q_query ex_query Obs)) (Some (''soma_joinid'' # [''cell_type'']))
            = Inr ?tbl"
    by (simp add: ex_experiment_def ex_dataframe_def ex_obs_table_def column_def)
  have h4: "\<forall>n\<in>set (''soma_joinid'' # [''cell_type'']).
              length (filter (\<lambda>f. fst f = n) ?tbl) = 1"
    by simp
  from read_axis_dataframe_injects_joinid
         [where s = ex_query and ax = Obs and cols = "[''cell_type'']"
            and axis_df = "exp_obs ex_experiment" and tbl = ?tbl, OF h1 h2 h3 h4]
  obtain ids out where
    "column ?tbl ''soma_joinid'' = Inr ids" "select ?tbl [''cell_type''] = Inr out"
    "read_axis_dataframe Obs (exp_obs ex_experiment) (Some [''cell_type'']) ex_query =
       (Inr out, ex_query\<lparr>q_joinids := (q_joinids ex_query)(Obs := Some ids),
          q_trace := q_trace ex_query @ [AxisRead Obs (Some (''soma_joinid'' # [''cell_type'']))]\<rparr>)"
    by blast
  then show ?thesis by (auto simp: column_def ex_query_eq)
qed



text \<open>
  C7. Bad matrix names, on a query whose measurement is in the experiment. As amended:
  \<^verbatim>\<open>read\<close> fails when a name of \<^verbatim>\<open>[X_name] + X_layers\<close> is malformed or not sparse, and
  the first such name \<open>n\<close> decides the exception: \<^verbatim>\<open>ValueError\<close> when \<open>n\<close> is not a
  string, is empty or is unknown, \<^verbatim>\<open>NotImplementedError\<close> when \<open>n\<close> names a matrix that
  is not sparse. The query, its trace included, and the caller's \<^verbatim>\<open>column_names\<close> are
  as before: nothing was read. \<^verbatim>\<open>X\<close> fails in the same two ways for its one layer, and
  yields no chunk before it does.
\<close>

theorem read_and_X_reject_bad_matrix_names:
  assumes ms: "the_measurement s = Inr m"
  shows "(X_name # (case X_layers of None \<Rightarrow> [] | Some l \<Rightarrow> l) = pre @ n # post
            \<and> (\<forall>k\<in>set pre. \<not> malformed_name (ms_X m) k \<and> \<not> not_sparse_name (ms_X m) k)
            \<and> (malformed_name (ms_X m) n \<or> not_sparse_name (ms_X m) n)
          \<longrightarrow> (\<exists>e. read X_name use_position_indexing column_names X_layers s
                       = (Inl e, s, column_names)
                 \<and> exc_class e = (if malformed_name (ms_X m) n then ''ValueError''
                                   else ''NotImplementedError'')))
       \<and> (malformed_name (ms_X m) (PyStr layer) \<or> not_sparse_name (ms_X m) (PyStr layer)
          \<longrightarrow> (\<exists>e. query_X layer prefetch s = (([], Some e), s)
                 \<and> exc_class e = (if malformed_name (ms_X m) (PyStr layer) then ''ValueError''
                                   else ''NotImplementedError'')))"
proof (intro conjI impI)
  assume "X_name # (case X_layers of None \<Rightarrow> [] | Some l \<Rightarrow> l) = pre @ n # post
            \<and> (\<forall>k\<in>set pre. \<not> malformed_name (ms_X m) k \<and> \<not> not_sparse_name (ms_X m) k)
            \<and> (malformed_name (ms_X m) n \<or> not_sparse_name (ms_X m) n)"
  then show "\<exists>e. read X_name use_position_indexing column_names X_layers s
                    = (Inl e, s, column_names)
               \<and> exc_class e = (if malformed_name (ms_X m) n then ''ValueError''
                                 else ''NotImplementedError'')"
    by (elim conjE) (rule read_bad_names [OF ms], assumption+)
next
  assume "malformed_name (ms_X m) (PyStr layer) \<or> not_sparse_name (ms_X m) (PyStr layer)"
  then show "\<exists>e. query_X layer prefetch s = (([], Some e), s)
               \<and> exc_class e = (if malformed_name (ms_X m) (PyStr layer) then ''ValueError''
                                 else ''NotImplementedError'')"
    by (rule query_X_bad_layer [OF ms])
qed

text \<open>
  On the example query: \<^verbatim>\<open>read("raw", X_layers=["dense", 5])\<close> raises
  \<^verbatim>\<open>NotImplementedError\<close> and leaves the query as it was; with the two layers swapped it
  raises \<^verbatim>\<open>ValueError\<close>; \<^verbatim>\<open>X("nope")\<close> raises \<^verbatim>\<open>ValueError\<close> and yields nothing.
\<close>

theorem read_and_X_reject_bad_matrix_names_witness:
  "raised_class (fst (read (PyStr ''raw'') True None (Some [PyStr ''dense'', PyOther]) ex_query))
     = Some ''NotImplementedError''
   \<and> fst (snd (read (PyStr ''raw'') True None (Some [PyStr ''dense'', PyOther]) ex_query))
     = ex_query
   \<and> raised_class (fst (read (PyStr ''raw'') True None (Some [PyOther, PyStr ''dense'']) ex_query))
     = Some ''ValueError''
   \<and> map_option exc_class (snd (fst (query_X ''nope'' False ex_query))) = Some ''ValueError''
   \<and> fst (fst (query_X ''nope'' False ex_query)) = []
   \<and> snd (query_X ''nope'' False ex_query) = ex_query"
proof -
  have pre: "\<forall>k\<in>set [PyStr ''raw'']. \<not> malformed_name (ms_X ex_measurement) k
                \<and> \<not> not_sparse_name (ms_X ex_measurement) k"
    by (simp add: malformed_name_def not_sparse_name_def ex_measurement_def ex_raw_def)
  have dense: "not_sparse_name (ms_X ex_measurement) (PyStr ''dense'')"
    by (simp add: not_sparse_name_def ex_measurement_def ex_dense_def)
  have nd: "\<not> malformed_name (ms_X ex_measurement) (PyStr ''dense'')"
    using dense malformed_not_sparse by blast
  have other: "malformed_name (ms_X ex_measurement) PyOther"
    by (simp add: malformed_name_def)
  have nope: "malformed_name (ms_X ex_measurement) (PyStr ''nope'')"
    by (simp add: malformed_name_def ex_measurement_def)
  have n1: "PyStr ''raw'' # (case Some [PyStr ''dense'', PyOther] of None \<Rightarrow> [] | Some l \<Rightarrow> l)
              = [PyStr ''raw''] @ PyStr ''dense'' # [PyOther]"
    by simp
  have n2: "PyStr ''raw'' # (case Some [PyOther, PyStr ''dense''] of None \<Rightarrow> [] | Some l \<Rightarrow> l)
              = [PyStr ''raw''] @ PyOther # [PyStr ''dense'']"
    by simp
  note first = read_and_X_reject_bad_matrix_names [OF ex_measurement_of_query,
      where X_name = "PyStr ''raw''" and X_layers = "Some [PyStr ''dense'', PyOther]"
        and pre = "[PyStr ''raw'']" and n = "PyStr ''dense''" and post = "[PyOther]"
        and use_position_indexing = True and column_names = None
        and layer = "''nope''" and prefetch = False]
  note second = read_and_X_reject_bad_matrix_names [OF ex_measurement_of_query,
      where X_name = "PyStr ''raw''" and X_layers = "Some [PyOther, PyStr ''dense'']"
        and pre = "[PyStr ''raw'']" and n = PyOther and post = "[PyStr ''dense'']"
        and use_position_indexing = True and column_names = None
        and layer = "''nope''" and prefetch = False]
  from first n1 pre dense nd
  obtain e1 where
    r1: "read (PyStr ''raw'') True None (Some [PyStr ''dense'', PyOther]) ex_query
           = (Inl e1, ex_query, None)" "exc_class e1 = ''NotImplementedError''"
    by auto
  from first nope
  obtain e3 where
    x1: "query_X ''nope'' False ex_query = (([], Some e3), ex_query)"
      "exc_class e3 = ''ValueError''"
    by auto
  from second n2 pre other
  obtain e2 where
    r2: "read (PyStr ''raw'') True None (Some [PyOther, PyStr ''dense'']) ex_query
           = (Inl e2, ex_query, None)" "exc_class e2 = ''ValueError''"
    by auto
  from r1 r2 x1 show ?thesis by (simp add: raised_class_def)
qed

text \<open>
  The claim names \<^verbatim>\<open>ValueError\<close> for a matrix that is not sparse: on the example query
  \<^verbatim>\<open>read("dense")\<close> and \<^verbatim>\<open>X("dense")\<close> raise \<^verbatim>\<open>NotImplementedError\<close>.
\<close>

theorem read_dense_counterexample:
  "raised_class (fst (read (PyStr ''dense'') False None None ex_query))
     = Some ''NotImplementedError''
   \<and> raised_class (fst (read (PyStr ''dense'') False None None ex_query)) \<noteq> Some ''ValueError''
   \<and> snd (fst (query_X ''dense'' False ex_query))
       = Some (NotImplementedError ''Dense array unsupported'')"
  by code_simp

text \<open>
  C8. Construction of a query for an experiment that does not exist or a measurement that
  is not in it. As amended: \<^verbatim>\<open>__init__\<close> raises Python's \<^verbatim>\<open>ValueError\<close> (the code has
  no \<^verbatim>\<open>ValidationError\<close>), with the message of the first check that fails; no query is
  constructed, hence no cache and no pool, and the scoped helper has no query to hand to
  its body.
\<close>

theorem init_rejects_missing:
  assumes "\<not> exp_exists exp \<or> exp_ms exp measurement_name = None"
  shows "ExperimentQuery_init exp measurement_name obs_query var_query
           = Inl (ValueError (if \<not> exp_exists exp then ''Experiment does not exist''
                              else ''Measurement does not exist in the experiment''))
       \<and> raised_class (ExperimentQuery_init exp measurement_name obs_query var_query)
           = Some ''ValueError''
       \<and> with_experiment_query exp measurement_name obs_query var_query body
           = (Inl (ValueError (if \<not> exp_exists exp then ''Experiment does not exist''
                               else ''Measurement does not exist in the experiment'')), None)"
  using assms
  by (auto simp: ExperimentQuery_init_def raised_class_def with_experiment_query_def
        experiment_query_enter_def)

text \<open>
  On the experiment whose handle does not resolve, and on the example experiment with a
  measurement it does not have.
\<close>

theorem init_rejects_missing_witness:
  "\<not> exp_exists ex_missing_experiment
   \<and> (ExperimentQuery_init ex_missing_experiment ''RNA'' None None
         :: error + string ExperimentQuery) = Inl (ValueError ''Experiment does not exist'')
   \<and> exp_ms ex_experiment ''ATAC'' = None
   \<and> (ExperimentQuery_init ex_experiment ''ATAC'' None None
         :: error + string ExperimentQuery)
       = Inl (ValueError ''Measurement does not exist in the experiment'')"
proof -
  have a: "\<not> exp_exists ex_missing_experiment" by (simp add: ex_missing_experiment_def)
  have b: "exp_ms ex_experiment ''ATAC'' = None" by (simp add: ex_experiment_def)
  have c: "exp_exists ex_experiment" by (simp add: ex_experiment_def)
  from a b c
    init_rejects_missing [where exp = ex_missing_experiment and measurement_name = "''RNA''"
      and obs_query = None and var_query = None
      and body = "\<lambda>q. (Inr (), q :: string ExperimentQuery)"]
    init_rejects_missing [where exp = ex_experiment and measurement_name = "''ATAC''"
      and obs_query = None and var_query = None
      and body = "\<lambda>q. (Inr (), q :: string ExperimentQuery)"]
  show ?thesis by simp
qed

text \<open>
  The class of the exception is \<^verbatim>\<open>ValueError\<close>, not the \<^verbatim>\<open>ValidationError\<close> of the
  claim.
\<close>

theorem init_error_class_counterexample:
  "raised_class (ExperimentQuery_init ex_missing_experiment ''RNA'' None None
       :: error + string ExperimentQuery) = Some ''ValueError''
   \<and> raised_class (ExperimentQuery_init ex_missing_experiment ''RNA'' None None
       :: error + string ExperimentQuery) \<noteq> Some ''ValidationError''"
  by (simp add: ExperimentQuery_init_def ex_missing_experiment_def raised_class_def)

text \<open>
  C9. The chunked matrix output of the async facade (\<^verbatim>\<open>AsyncExperimentQuery.X\<close>) is that
  of \<^verbatim>\<open>ExperimentQuery.X\<close> on the same query state, layer and prefetch flag: the same
  chunks in the same order, the same end (exhaustion or the same exception) and the same
  state after it, hence the same concatenation. The closure of \<^verbatim>\<open>wrap_generator\<close>
  returns \<open>(v, False)\<close> for a value \<open>v\<close>, also when \<open>v\<close> is \<^verbatim>\<open>None\<close>, and
  \<open>(None, True)\<close> at exhaustion only: the flag is \<open>True\<close> exactly when the generator
  is exhausted.
\<close>

theorem async_X_same_chunks:
  "async_X layer prefetch s = query_X layer prefetch s
   \<and> concat_generator (fst (async_X layer prefetch s))
       = concat_generator (fst (query_X layer prefetch s))
   \<and> wrap_generator (v # vs, e) = (Inr (v, False), (vs, e))
   \<and> wrap_generator ([], None) = (Inr (None, True), ([], None))
   \<and> wrap_generator ([], Some err) = (Inl err, ([], None))
   \<and> ((\<exists>u. fst (wrap_generator gen) = Inr (u, True)) = (gen = ([], None)))"
proof -
  have a: "async_X layer prefetch s = query_X layer prefetch s"
    by (cases "query_X layer prefetch s") (simp add: async_X_def async_iter_pass)
  have b: "(\<exists>u. fst (wrap_generator gen) = Inr (u, True)) = (gen = ([], None))"
    by (cases gen rule: gen_next.cases) (simp_all add: wrap_generator_def)
  from a b show ?thesis by (simp add: wrap_generator_def)
qed

text \<open>
  C10. \<^verbatim>\<open>read\<close> with a mapping \<open>d\<close> supplied as \<^verbatim>\<open>column_names\<close>. As amended: when
  the matrix names pass the checks of \<^verbatim>\<open>read\<close>, the caller's mapping is, after the
  call, \<open>d\<close> with \<^verbatim>\<open>"obs"\<close> and \<^verbatim>\<open>"var"\<close> each mapped to \<^verbatim>\<open>None\<close> where it was
  missing; its other keys, and a \<open>d\<close> that has both keys, are as before. And a mapping
  \<open>dn\<close> that gives each axis the same columns as \<open>d\<close>, a missing key counting as
  \<^verbatim>\<open>None\<close>, gets the same result and leaves the query in the same state.
\<close>

theorem read_defaults_column_names:
  assumes ms: "the_measurement s = Inr m"
    and ok: "check_X_names (ms_X m) (X_name # (case X_layers of None \<Rightarrow> [] | Some l \<Rightarrow> l)) = None"
  shows "snd (snd (read X_name upi (Some d) X_layers s)) = Some (default_column_names (Some d))
       \<and> map_of (default_column_names (Some d)) ''obs'' = Some (axis_columns d ''obs'')
       \<and> map_of (default_column_names (Some d)) ''var'' = Some (axis_columns d ''var'')
       \<and> (k \<noteq> ''obs'' \<and> k \<noteq> ''var'' \<longrightarrow> map_of (default_column_names (Some d)) k = map_of d k)
       \<and> (map_of d ''obs'' \<noteq> None \<and> map_of d ''var'' \<noteq> None
            \<longrightarrow> default_column_names (Some d) = d)
       \<and> (axis_columns dn ''obs'' = axis_columns d ''obs''
            \<and> axis_columns dn ''var'' = axis_columns d ''var''
          \<longrightarrow> fst (read X_name upi (Some dn) X_layers s)
                = fst (read X_name upi (Some d) X_layers s)
            \<and> fst (snd (read X_name upi (Some dn) X_layers s))
                = fst (snd (read X_name upi (Some d) X_layers s)))"
proof -
  have "snd (snd (read X_name upi (Some d) X_layers s)) = Some (default_column_names (Some d))"
    using ms ok by (simp add: read_def Let_def split: prod.splits)
  moreover have "map_of d ''obs'' \<noteq> None \<and> map_of d ''var'' \<noteq> None
                   \<longrightarrow> default_column_names (Some d) = d"
    by (auto simp: default_column_names_def)
  ultimately show ?thesis
    using read_same_axis_columns [of dn d X_name upi X_layers s]
    by (simp add: map_of_default_column_names)
qed

text \<open>
  On the example query, a mapping with the key \<^verbatim>\<open>"var"\<close> only: after the call it also
  holds \<^verbatim>\<open>"obs"\<close>, mapped to \<^verbatim>\<open>None\<close>, and the result is that of the call with the
  mapping that says so.
\<close>

theorem read_defaults_column_names_witness:
  "snd (snd (read (PyStr ''raw'') False (Some [(''var'', Some [''feature_name''])]) None ex_query))
     = Some [(''var'', Some [''feature_name'']), (''obs'', None)]
   \<and> fst (read (PyStr ''raw'') False (Some [(''var'', Some [''feature_name''])]) None ex_query)
     = fst (read (PyStr ''raw'') False
              (Some [(''obs'', None), (''var'', Some [''feature_name''])]) None ex_query)"
proof -
  have ok: "check_X_names (ms_X ex_measurement)
              (PyStr ''raw'' # (case None of None \<Rightarrow> [] | Some l \<Rightarrow> l)) = None"
    by (simp add: ex_measurement_def ex_raw_def)
  have d: "default_column_names (Some [(''var'', Some [''feature_name''])])
             = [(''var'', Some [''feature_name'']), (''obs'', None)]"
    by (simp add: default_column_names_def)
  have ax: "axis_columns [(''var'', Some [''feature_name''])] ''obs''
              = axis_columns [(''obs'', None), (''var'', Some [''feature_name''])] ''obs''
          \<and> axis_columns [(''var'', Some [''feature_name''])] ''var''
              = axis_columns [(''obs'', None), (''var'', Some [''feature_name''])] ''var''"
    by (simp add: axis_columns_def)
  note inst = read_defaults_column_names [OF ex_measurement_of_query ok,
         where upi = False and d = "[(''obs'', None), (''var'', Some [''feature_name''])]"
           and dn = "[(''var'', Some [''feature_name''])]"]
  note mut = read_defaults_column_names [OF ex_measurement_of_query ok,
         where upi = False and d = "[(''var'', Some [''feature_name''])]"]
  from mut have "snd (snd (read (PyStr ''raw'') False (Some [(''var'', Some [''feature_name''])])
                    None ex_query))
                 = Some (default_column_names (Some [(''var'', Some [''feature_name''])]))"
    by (rule conjunct1)
  moreover from inst ax
  have "fst (read (PyStr ''raw'') False (Some [(''var'', Some [''feature_name''])]) None ex_query)
          = fst (read (PyStr ''raw'') False
                   (Some [(''obs'', None), (''var'', Some [''feature_name''])]) None ex_query)"
    by blast
  ultimately show ?thesis using d by (simp only: simp_thms)
qed

text \<open>
  The claim has the missing keys inserted by every call. \<^verbatim>\<open>read\<close> checks the matrix
  names first: with an empty matrix name it raises, and the caller's empty mapping is
  still empty.
\<close>

theorem read_invalid_name_keeps_mapping_counterexample:
  "fst (read (PyStr []) False (Some []) None ex_query)
     = Inl (ValueError ''X layer names must be specified as a string.'')
   \<and> snd (snd (read (PyStr []) False (Some []) None ex_query)) = Some []
   \<and> map_of [] ''obs'' = (None :: string list option option)"
  by code_simp

end
